theory Spec2Isabelle
  imports Main "HOL-Library.Word"
begin

unbundle bit_operations_syntax

section \<open>Values, panics and the host's resource data\<close>

text \<open>
  Go run-time failures that the source can raise: a nil pointer dereference
  (\<^verbatim>\<open>*p\<close> with \<^verbatim>\<open>p == nil\<close>) and a failed type assertion
  (\<^verbatim>\<open>v.(T)\<close> on a value of another dynamic type, or on nil).
\<close>

datatype panic = NilDereference | TypeAssertion

text \<open>
  A value of type \<^verbatim>\<open>interface{}\<close> as the configuration tree holds it; the nil
  interface is \<open>None\<close> of \<open>tf_value option\<close>.
\<close>

datatype tf_value =
    VString string
  | VBool bool
  | VList "tf_value list"
  | VMap "(string \<times> tf_value) list"

text \<open>
  \<^verbatim>\<open>schema.ResourceData\<close>: the identity set by \<^verbatim>\<open>SetId\<close> and the attribute
  tree read by \<^verbatim>\<open>Get\<close>/\<^verbatim>\<open>GetOk\<close> and written by \<^verbatim>\<open>Set\<close>.
\<close>

record resource_data =
  rd_id :: string
  rd_fields :: "string \<Rightarrow> tf_value option"

definition Id_of :: "resource_data \<Rightarrow> string" where
  "Id_of d = rd_id d"

definition SetId :: "string \<Rightarrow> resource_data \<Rightarrow> resource_data" where
  "SetId v d = d\<lparr>rd_id := v\<rparr>"

definition Set_field :: "string \<Rightarrow> tf_value \<Rightarrow> resource_data \<Rightarrow> resource_data" where
  "Set_field k v d = d\<lparr>rd_fields := (rd_fields d)(k \<mapsto> v)\<rparr>"

text \<open>
  \<^verbatim>\<open>d.Set\<close> on an attribute that the schema declares as a list: a value that is not a
  list is rejected with an error, and the attribute keeps what it held.
\<close>

definition Set_list_field :: "string \<Rightarrow> tf_value \<Rightarrow> resource_data \<Rightarrow> resource_data" where
  "Set_list_field k v d = (case v of VList xs \<Rightarrow> Set_field k v d | _ \<Rightarrow> d)"

definition Get :: "resource_data \<Rightarrow> string \<Rightarrow> tf_value option" where
  "Get d k = rd_fields d k"

text \<open>The zero value of each schema type, as \<^verbatim>\<open>GetOk\<close> compares against it.\<close>

fun isZero :: "tf_value \<Rightarrow> bool" where
  "isZero (VString s) = (s = [])"
| "isZero (VBool b) = (\<not> b)"
| "isZero (VList xs) = (xs = [])"
| "isZero (VMap kvs) = (kvs = [])"

text \<open>
  \<^verbatim>\<open>GetOk\<close> of the plugin SDK returns the value and whether the key has been set
  to a non-zero value: an unset key, an empty string, \<^verbatim>\<open>false\<close> and an empty
  list all give \<^verbatim>\<open>ok == false\<close>.
\<close>

definition GetOk :: "resource_data \<Rightarrow> string \<Rightarrow> tf_value option \<times> bool" where
  "GetOk d k = (case rd_fields d k of
                  None \<Rightarrow> (None, False)
                | Some v \<Rightarrow> (Some v, \<not> isZero v))"

text \<open>Type assertions \<^verbatim>\<open>v.(string)\<close>, \<^verbatim>\<open>v.(bool)\<close>, \<^verbatim>\<open>v.([]interface{})\<close>.\<close>

fun assert_string :: "tf_value option \<Rightarrow> panic + string" where
  "assert_string (Some (VString s)) = Inr s"
| "assert_string _ = Inl TypeAssertion"

fun assert_bool :: "tf_value option \<Rightarrow> panic + bool" where
  "assert_bool (Some (VBool b)) = Inr b"
| "assert_bool _ = Inl TypeAssertion"

fun assert_list :: "tf_value option \<Rightarrow> panic + tf_value list" where
  "assert_list (Some (VList xs)) = Inr xs"
| "assert_list _ = Inl TypeAssertion"

text \<open>
  The loop \<^verbatim>\<open>for _, s := range xs { acc = append(acc, s.(string)) }\<close>, which
  both request builders run over \<^verbatim>\<open>valid_tag_values\<close>.
\<close>

fun append_strings :: "tf_value list \<Rightarrow> string list \<Rightarrow> panic + string list" where
  "append_strings [] acc = Inr acc"
| "append_strings (s # ss) acc =
     (case assert_string (Some s) of
        Inl p \<Rightarrow> Inl p
      | Inr v \<Rightarrow> append_strings ss (acc @ [v]))"

section \<open>Diagnostics\<close>

datatype severity = Error | Warning

record diagnostic =
  Severity :: severity
  Summary :: string
  Detail :: string

type_synonym diagnostics = "diagnostic list"

definition HasError :: "diagnostics \<Rightarrow> bool" where
  "HasError ds = list_ex (\<lambda>x. Severity x = Error) ds"

text \<open>\<^verbatim>\<open>diag.FromErr\<close> and \<^verbatim>\<open>diag.Errorf\<close> of the plugin SDK: one error diagnostic
  whose summary is the message.\<close>

definition FromErr :: "string \<Rightarrow> diagnostics" where
  "FromErr msg = [\<lparr>Severity = Error, Summary = msg, Detail = []\<rparr>]"

definition Errorf :: "string \<Rightarrow> diagnostics" where
  "Errorf msg = [\<lparr>Severity = Error, Summary = msg, Detail = []\<rparr>]"

record http_response =
  StatusCode :: int

type_synonym client_error = string

section \<open>Monitor config policy: API data model\<close>

text \<open>
  \<^verbatim>\<open>datadogV2.NewMonitorConfigPolicyTypeFromValue\<close> of the API client: a pointer to
  the enum value when it is an allowed one (\<^verbatim>\<open>"tag"\<close> is the only variant), nil
  and an error otherwise. The callers drop the error.
\<close>

definition MONITORCONFIGPOLICYTYPE_TAG :: string where
  "MONITORCONFIGPOLICYTYPE_TAG = ''tag''"





text \<open>\<^verbatim>\<open>MonitorConfigPolicyTagPolicyCreateRequest\<close>: all three fields are plain values.\<close>

record tag_policy_create_request =
  tc_TagKey :: string
  tc_TagKeyRequired :: bool
  tc_ValidTagValues :: "string list"

text \<open>\<^verbatim>\<open>MonitorConfigPolicyPolicyCreateRequest\<close>: one pointer per variant.\<close>

record policy_create_request =
  MonitorConfigPolicyTagPolicyCreateRequest :: "tag_policy_create_request option"

text \<open>\<^verbatim>\<open>MonitorConfigPolicyTagPolicy\<close>: the key and the flag are pointers, unset
  until their setter runs; a nil slice is the empty list.\<close>

record tag_policy =
  tp_TagKey :: "string option"
  tp_TagKeyRequired :: "bool option"
  tp_ValidTagValues :: "string list"

definition NewMonitorConfigPolicyTagPolicy :: tag_policy where
  "NewMonitorConfigPolicyTagPolicy =
     \<lparr>tp_TagKey = None, tp_TagKeyRequired = None, tp_ValidTagValues = []\<rparr>"

definition SetTagKey :: "string \<Rightarrow> tag_policy \<Rightarrow> tag_policy" where
  "SetTagKey v p = p\<lparr>tp_TagKey := Some v\<rparr>"

definition SetTagKeyRequired :: "bool \<Rightarrow> tag_policy \<Rightarrow> tag_policy" where
  "SetTagKeyRequired v p = p\<lparr>tp_TagKeyRequired := Some v\<rparr>"

text \<open>\<^verbatim>\<open>MonitorConfigPolicyPolicy\<close>: one pointer per variant.\<close>

record policy_policy =
  MonitorConfigPolicyTagPolicy :: "tag_policy option"

record create_request =
  cr_PolicyType :: string
  cr_Policy :: policy_create_request
  cr_Type :: string

record edit_request =
  er_Policy :: policy_policy
  er_PolicyType :: string
  er_Id :: string
  er_Type :: string

text \<open>
  \<^verbatim>\<open>MonitorConfigPolicyResponseData\<close> with its attributes flattened: the id, the
  policy type and the policy are pointers. \<^verbatim>\<open>MonitorConfigPolicyResponse\<close> holds
  a pointer to it.
\<close>

record response_data =
  rs_Id :: "string option"
  rs_PolicyType :: "string option"
  rs_Policy :: "policy_policy option"

record policy_response =
  rs_Data :: "response_data option"

section \<open>Monitor config policy: request builders\<close>


text \<open>
  The three \<^verbatim>\<open>if attr, ok := d.GetOk(...); ok\<close> blocks of
  \<^verbatim>\<open>buildUpdateRequestPolicy\<close>, in order. The second reads the key
  \<^verbatim>\<open>"tag_key"\<close> and asserts \<^verbatim>\<open>bool\<close>; the third fills a local slice that
  nothing reads afterwards.
\<close>

definition update_tag_key :: "resource_data \<Rightarrow> tag_policy \<Rightarrow> panic + tag_policy" where
  "update_tag_key d tagPolicy =
     (case GetOk d ''tag_key'' of
        (attr, True) \<Rightarrow>
          (case assert_string attr of
             Inl p \<Rightarrow> Inl p
           | Inr v \<Rightarrow> Inr (SetTagKey v tagPolicy))
      | (attr, False) \<Rightarrow> Inr tagPolicy)"

definition update_tag_key_required :: "resource_data \<Rightarrow> tag_policy \<Rightarrow> panic + tag_policy" where
  "update_tag_key_required d tagPolicy =
     (case GetOk d ''tag_key'' of
        (attr, True) \<Rightarrow>
          (case assert_bool attr of
             Inl p \<Rightarrow> Inl p
           | Inr v \<Rightarrow> Inr (SetTagKeyRequired v tagPolicy))
      | (attr, False) \<Rightarrow> Inr tagPolicy)"

definition update_valid_tag_values :: "resource_data \<Rightarrow> tag_policy \<Rightarrow> panic + tag_policy" where
  "update_valid_tag_values d tagPolicy =
     (case GetOk d ''valid_tag_values'' of
        (attr, True) \<Rightarrow>
          (case assert_list attr of
             Inl p \<Rightarrow> Inl p
           | Inr vs \<Rightarrow>
               (case append_strings vs [] of
                  Inl p \<Rightarrow> Inl p
                | Inr validTagValues \<Rightarrow> Inr tagPolicy))
      | (attr, False) \<Rightarrow> Inr tagPolicy)"

definition buildUpdateRequestPolicy ::
  "resource_data \<Rightarrow> string \<Rightarrow> panic + policy_policy option" where
  "buildUpdateRequestPolicy d policyType =
     (if policyType = MONITORCONFIGPOLICYTYPE_TAG then
        (case update_tag_key d NewMonitorConfigPolicyTagPolicy of
           Inl p \<Rightarrow> Inl p
         | Inr tp1 \<Rightarrow>
        (case update_tag_key_required d tp1 of
           Inl p \<Rightarrow> Inl p
         | Inr tp2 \<Rightarrow>
        (case update_valid_tag_values d tp2 of
           Inl p \<Rightarrow> Inl p
         | Inr tp3 \<Rightarrow> Inr (Some \<lparr>MonitorConfigPolicyTagPolicy = Some tp3\<rparr>))))
      else Inr None)"

text \<open>Dereferencing a pointer: \<^verbatim>\<open>*p\<close>.\<close>

definition deref :: "'a option \<Rightarrow> panic + 'a" where
  "deref p = (case p of None \<Rightarrow> Inl NilDereference | Some v \<Rightarrow> Inr v)"



section \<open>SLO search: API data model\<close>

text \<open>
  \<^verbatim>\<open>SearchServiceLevelObjective\<close> as the loop reads it: \<^verbatim>\<open>GetData().Id\<close> is a
  pointer that the loop dereferences; \<^verbatim>\<open>GetName()\<close> and \<^verbatim>\<open>GetSloType()\<close>
  return the zero value for a missing field.
\<close>

record slo =
  slo_Id :: "string option"
  slo_Name :: string
  slo_SloType :: string

text \<open>
  \<^verbatim>\<open>SearchSLOResponse\<close> as the loop reads it: \<^verbatim>\<open>GetData().Attributes\<close> is a
  pointer to the struct holding \<^verbatim>\<open>Slos\<close>, and \<^verbatim>\<open>GetMeta().Pagination.LastNumber\<close>
  goes through two pointers; \<open>None\<close> is a nil pointer on the path.
\<close>

record search_response =
  sr_Slos :: "slo list option"
  sr_LastNumber :: "int option"

record search_params =
  sp_Query :: "string option"
  sp_PageSize :: "int option"
  sp_PageNumber :: "int option"

definition NewSearchSLOOptionalParameters :: search_params where
  "NewSearchSLOOptionalParameters =
     \<lparr>sp_Query = None, sp_PageSize = None, sp_PageNumber = None\<rparr>"

record list_params =
  lp_Ids :: "string option"
  lp_Query :: "string option"
  lp_TagsQuery :: "string option"
  lp_MetricsQuery :: "string option"

definition NewListSLOsOptionalParameters :: list_params where
  "NewListSLOsOptionalParameters =
     \<lparr>lp_Ids = None, lp_Query = None, lp_TagsQuery = None, lp_MetricsQuery = None\<rparr>"

section \<open>External collaborators\<close>

text \<open>The decoded objects that the source hands to \<^verbatim>\<open>utils.CheckForUnparsed\<close>.\<close>

datatype api_object =
    ObjCreateRequest create_request
  | ObjPolicyResponse policy_response
  | ObjSLO slo

text \<open>The remote calls, logged in the order they are issued.\<close>

datatype api_call =
    CallGetMonitorConfigPolicy string
  | CallCreateMonitorConfigPolicy create_request
  | CallUpdateMonitorConfigPolicy string edit_request
  | CallDeleteMonitorConfigPolicy string
  | CallSearchSLO search_params

text \<open>
  What the source takes from outside: the API client's calls (each returns the decoded
  response, the HTTP response and the error), the helpers
  \<^verbatim>\<open>utils.TranslateClientErrorDiag\<close> and \<^verbatim>\<open>utils.CheckForUnparsed\<close>, and
  \<^verbatim>\<open>expandStringList\<close>. They are parameters of every operation.
  \<^verbatim>\<open>CheckForUnparsed\<close> returns the error, if any.
\<close>

record env =
  TranslateClientErrorDiag :: "client_error \<Rightarrow> http_response option \<Rightarrow> string \<Rightarrow> diagnostics"
  CheckForUnparsed :: "api_object \<Rightarrow> string option"
  expandStringList :: "tf_value list \<Rightarrow> string list"
  GetMonitorConfigPolicy ::
    "string \<Rightarrow> policy_response \<times> http_response option \<times> client_error option"
  CreateMonitorConfigPolicy ::
    "create_request \<Rightarrow> policy_response \<times> http_response option \<times> client_error option"
  UpdateMonitorConfigPolicy ::
    "string \<Rightarrow> edit_request \<Rightarrow> policy_response \<times> http_response option \<times> client_error option"
  DeleteMonitorConfigPolicy :: "string \<Rightarrow> http_response option \<times> client_error option"
  SearchSLO ::
    "search_params \<Rightarrow> search_response \<times> http_response option \<times> client_error option"

text \<open>An operation's result: the calls it issued, and a panic or what it returned.\<close>

type_synonym 'a outcome = "api_call list \<times> (panic + 'a)"

section \<open>Monitor config policy: create, read, update, delete\<close>

text \<open>The nil-safe getters of the API client return the zero value.\<close>

definition GetId :: "response_data option \<Rightarrow> string" where
  "GetId m = (case m of None \<Rightarrow> [] | Some r \<Rightarrow> (case rs_Id r of None \<Rightarrow> [] | Some v \<Rightarrow> v))"

definition GetPolicyType :: "response_data option \<Rightarrow> string" where
  "GetPolicyType m =
     (case m of None \<Rightarrow> [] | Some r \<Rightarrow> (case rs_PolicyType r of None \<Rightarrow> [] | Some v \<Rightarrow> v))"

definition GetTagKey :: "tag_policy option \<Rightarrow> string" where
  "GetTagKey t = (case t of None \<Rightarrow> [] | Some p \<Rightarrow> (case tp_TagKey p of None \<Rightarrow> [] | Some v \<Rightarrow> v))"

definition GetTagKeyRequired :: "tag_policy option \<Rightarrow> bool" where
  "GetTagKeyRequired t =
     (case t of None \<Rightarrow> False | Some p \<Rightarrow> (case tp_TagKeyRequired p of None \<Rightarrow> False | Some v \<Rightarrow> v))"

definition GetValidTagValues :: "tag_policy option \<Rightarrow> string list" where
  "GetValidTagValues t = (case t of None \<Rightarrow> [] | Some p \<Rightarrow> tp_ValidTagValues p)"

definition attributes_Policy :: "response_data option \<Rightarrow> policy_policy option" where
  "attributes_Policy m = (case m of None \<Rightarrow> None | Some r \<Rightarrow> rs_Policy r)"

text \<open>
  The results of \<^verbatim>\<open>d.Set\<close> are dropped by the source. The schema declares
  \<^verbatim>\<open>tag_policy\<close> as a list and the source hands \<^verbatim>\<open>d.Set\<close> a map, so that
  call leaves the attribute as it was; its arguments are evaluated all the same.
\<close>

definition updateMonitorConfigPolicyState ::
  "resource_data \<Rightarrow> response_data option \<Rightarrow> panic + resource_data \<times> diagnostics" where
  "updateMonitorConfigPolicyState d m =
     (let d1 = SetId (GetId m) d;
          d2 = Set_field ''policy_type'' (VString (GetPolicyType m)) d1
      in if GetPolicyType m = MONITORCONFIGPOLICYTYPE_TAG then
           (case deref (attributes_Policy m) of
              Inl p \<Rightarrow> Inl p
            | Inr pol \<Rightarrow>
                (let t = MonitorConfigPolicyTagPolicy pol in
                 Inr (Set_list_field ''tag_policy''
                        (VMap [(''tag_key'', VString (GetTagKey t)),
                               (''tag_key_required'', VBool (GetTagKeyRequired t)),
                               (''valid_tag_values'', VList (map VString (GetValidTagValues t)))])
                        d2, [])))
         else Inr (d2, []))"

definition is404 :: "http_response option \<Rightarrow> bool" where
  "is404 httpresp = (case httpresp of None \<Rightarrow> False | Some r \<Rightarrow> StatusCode r = 404)"

definition resourceDatadogMonitorConfigPolicyRead ::
  "env \<Rightarrow> resource_data \<Rightarrow> (resource_data \<times> diagnostics) outcome" where
  "resourceDatadogMonitorConfigPolicyRead e d =
     (case GetMonitorConfigPolicy e (Id_of d) of
        (monitorConfigPolicyResponse, httpresp, err) \<Rightarrow>
          ([CallGetMonitorConfigPolicy (Id_of d)],
           (case err of
              Some er \<Rightarrow>
                if is404 httpresp then Inr (SetId [] d, [])
                else Inr (d, TranslateClientErrorDiag e er httpresp
                               ''error getting monitor config policy'')
            | None \<Rightarrow> updateMonitorConfigPolicyState d (rs_Data monitorConfigPolicyResponse))))"



definition resourceDatadogMonitorConfigPolicyDelete ::
  "env \<Rightarrow> resource_data \<Rightarrow> (resource_data \<times> diagnostics) outcome" where
  "resourceDatadogMonitorConfigPolicyDelete e d =
     (case DeleteMonitorConfigPolicy e (Id_of d) of
        (httpresp, err) \<Rightarrow>
          ([CallDeleteMonitorConfigPolicy (Id_of d)],
           (case err of
              Some er \<Rightarrow>
                Inr (d, TranslateClientErrorDiag e er httpresp
                          ''error deleting monitor config policy'')
            | None \<Rightarrow> Inr (d, []))))"

section \<open>SHA-256 and hexadecimal printing\<close>

text \<open>
  \<^verbatim>\<open>crypto/sha256\<close> of the Go standard library (FIPS 180-4), on 32-bit words, and
  \<^verbatim>\<open>fmt.Sprintf("%x", ...)\<close> on the digest's bytes.
\<close>

definition sha256_K :: "32 word list" where
  "sha256_K =
    [0x428A2F98, 0x71374491, 0xB5C0FBCF, 0xE9B5DBA5, 0x3956C25B, 0x59F111F1, 0x923F82A4, 0xAB1C5ED5,
     0xD807AA98, 0x12835B01, 0x243185BE, 0x550C7DC3, 0x72BE5D74, 0x80DEB1FE, 0x9BDC06A7, 0xC19BF174,
     0xE49B69C1, 0xEFBE4786, 0x0FC19DC6, 0x240CA1CC, 0x2DE92C6F, 0x4A7484AA, 0x5CB0A9DC, 0x76F988DA,
     0x983E5152, 0xA831C66D, 0xB00327C8, 0xBF597FC7, 0xC6E00BF3, 0xD5A79147, 0x06CA6351, 0x14292967,
     0x27B70A85, 0x2E1B2138, 0x4D2C6DFC, 0x53380D13, 0x650A7354, 0x766A0ABB, 0x81C2C92E, 0x92722C85,
     0xA2BFE8A1, 0xA81A664B, 0xC24B8B70, 0xC76C51A3, 0xD192E819, 0xD6990624, 0xF40E3585, 0x106AA070,
     0x19A4C116, 0x1E376C08, 0x2748774C, 0x34B0BCB5, 0x391C0CB3, 0x4ED8AA4A, 0x5B9CCA4F, 0x682E6FF3,
     0x748F82EE, 0x78A5636F, 0x84C87814, 0x8CC70208, 0x90BEFFFA, 0xA4506CEB, 0xBEF9A3F7, 0xC67178F2]"

definition sha256_init :: "32 word list" where
  "sha256_init =
    [0x6A09E667, 0xBB67AE85, 0x3C6EF372, 0xA54FF53A, 0x510E527F, 0x9B05688C, 0x1F83D9AB, 0x5BE0CD19]"

definition rotr :: "nat \<Rightarrow> 32 word \<Rightarrow> 32 word" where
  "rotr n w = (drop_bit n w) OR (push_bit (32 - n) w)"

definition small_sigma0 :: "32 word \<Rightarrow> 32 word" where
  "small_sigma0 x = rotr 7 x XOR rotr 18 x XOR drop_bit 3 x"

definition small_sigma1 :: "32 word \<Rightarrow> 32 word" where
  "small_sigma1 x = rotr 17 x XOR rotr 19 x XOR drop_bit 10 x"

definition big_sigma0 :: "32 word \<Rightarrow> 32 word" where
  "big_sigma0 x = rotr 2 x XOR rotr 13 x XOR rotr 22 x"

definition big_sigma1 :: "32 word \<Rightarrow> 32 word" where
  "big_sigma1 x = rotr 6 x XOR rotr 11 x XOR rotr 25 x"

definition ch :: "32 word \<Rightarrow> 32 word \<Rightarrow> 32 word \<Rightarrow> 32 word" where
  "ch x y z = (x AND y) XOR (NOT x AND z)"

definition maj :: "32 word \<Rightarrow> 32 word \<Rightarrow> 32 word \<Rightarrow> 32 word" where
  "maj x y z = (x AND y) XOR (x AND z) XOR (y AND z)"

text \<open>The message with its padding: a one bit, zeros, and the bit length in 64 bits.\<close>

fun be_bytes :: "nat \<Rightarrow> nat \<Rightarrow> 8 word list" where
  "be_bytes 0 v = []"
| "be_bytes (Suc n) v = be_bytes n (v div 256) @ [of_nat v]"

definition sha256_pad :: "8 word list \<Rightarrow> 8 word list" where
  "sha256_pad m =
     m @ [0x80] @ replicate ((119 - length m mod 64) mod 64) 0 @ be_bytes 8 (8 * length m)"

fun be_words :: "8 word list \<Rightarrow> 32 word list" where
  "be_words (a # b # c # d # r) =
     (push_bit 24 (ucast a) OR push_bit 16 (ucast b) OR push_bit 8 (ucast c) OR ucast d) # be_words r"
| "be_words _ = []"

text \<open>The message schedule: sixteen words of the block, extended to sixty-four.\<close>

fun schedule :: "nat \<Rightarrow> 32 word list \<Rightarrow> 32 word list" where
  "schedule 0 w = w"
| "schedule (Suc n) w =
     (let t = length w in
      schedule n (w @ [small_sigma1 (w ! (t - 2)) + w ! (t - 7) +
                       small_sigma0 (w ! (t - 15)) + w ! (t - 16)]))"

fun sha256_round :: "32 word list \<Rightarrow> 32 word \<times> 32 word \<Rightarrow> 32 word list" where
  "sha256_round [a, b, c, d, e, f, g, h] (k, w) =
     (let t1 = h + big_sigma1 e + ch e f g + k + w;
          t2 = big_sigma0 a + maj a b c
      in [t1 + t2, a, b, c, d + t1, e, f, g])"
| "sha256_round s _ = s"

definition sha256_block :: "32 word list \<Rightarrow> 32 word list \<Rightarrow> 32 word list" where
  "sha256_block h blk =
     map2 (+) h (foldl sha256_round h (zip sha256_K (schedule 48 blk)))"

fun sha256_blocks :: "nat \<Rightarrow> 32 word list \<Rightarrow> 32 word list \<Rightarrow> 32 word list" where
  "sha256_blocks 0 h ws = h"
| "sha256_blocks (Suc n) h ws = sha256_blocks n (sha256_block h (take 16 ws)) (drop 16 ws)"

definition word_bytes :: "32 word \<Rightarrow> 8 word list" where
  "word_bytes w = [ucast (drop_bit 24 w), ucast (drop_bit 16 w), ucast (drop_bit 8 w), ucast w]"

definition sha256_sum :: "8 word list \<Rightarrow> 8 word list" where
  "sha256_sum m =
     (let ws = be_words (sha256_pad m)
      in concat (map word_bytes (sha256_blocks (length ws div 16) sha256_init ws)))"

definition hex_digit :: "nat \<Rightarrow> char" where
  "hex_digit n = ''0123456789abcdef'' ! n"

definition sprintf_x :: "8 word list \<Rightarrow> string" where
  "sprintf_x bs = concat (map (\<lambda>b. [hex_digit (unat b div 16), hex_digit (unat b mod 16)]) bs)"

definition string_bytes :: "string \<Rightarrow> 8 word list" where
  "string_bytes s = map (\<lambda>c. of_nat (of_char c)) s"

definition sha256_hex :: "string \<Rightarrow> string" where
  "sha256_hex s = sprintf_x (sha256_sum (string_bytes s))"

section \<open>SLO search: the pagination loop\<close>

type_synonym slo_entry = "(string \<times> tf_value) list"

text \<open>The warning appended for an item that \<^verbatim>\<open>CheckForUnparsed\<close> rejects.\<close>

definition skip_warning :: "string \<Rightarrow> string \<Rightarrow> diagnostic" where
  "skip_warning i err =
     \<lparr>Severity = Warning,
      Summary = ''skipping service level objective with id: '' @ i,
      Detail = ''service level objective contains unparsed object: '' @ err\<rparr>"

text \<open>The map appended to the page for an accepted item.\<close>

definition slo_map :: "string \<Rightarrow> slo \<Rightarrow> slo_entry" where
  "slo_map i s =
     [(''id'', VString i), (''name'', VString (slo_Name s)), (''type'', VString (slo_SloType s))]"

text \<open>
  The inner \<^verbatim>\<open>for _, slo := range ...Slos\<close>: a rejected item adds a warning and is
  skipped (\<^verbatim>\<open>continue\<close>), an accepted one is appended to the page. Both branches
  dereference the item's id.
\<close>

fun collect_page ::
  "env \<Rightarrow> slo list \<Rightarrow> diagnostics \<Rightarrow> slo_entry list \<Rightarrow> panic + diagnostics \<times> slo_entry list" where
  "collect_page e [] diags slosPage = Inr (diags, slosPage)"
| "collect_page e (s # ss) diags slosPage =
     (case CheckForUnparsed e (ObjSLO s) of
        Some err \<Rightarrow>
          (case deref (slo_Id s) of
             Inl p \<Rightarrow> Inl p
           | Inr i \<Rightarrow> collect_page e ss (diags @ [skip_warning i err]) slosPage)
      | None \<Rightarrow>
          (case deref (slo_Id s) of
             Inl p \<Rightarrow> Inl p
           | Inr i \<Rightarrow> collect_page e ss diags (slosPage @ [slo_map i s])))"

text \<open>\<^verbatim>\<open>pageNumber++\<close> on an \<^verbatim>\<open>int64\<close>.\<close>

definition int64_incr :: "int \<Rightarrow> int" where
  "int64_incr n = (if n = 2 ^ 63 - 1 then - (2 ^ 63) else n + 1)"

text \<open>How the loop ends: the API call failed, or the last page was reached.\<close>

datatype search_result =
    SearchFailed diagnostics
  | SearchDone diagnostics "slo_entry list"

text \<open>
  The \<^verbatim>\<open>for { ... }\<close> of \<^verbatim>\<open>searchSLO\<close>, which is also, statement for statement,
  the loop of the single-query read. Its state is the request parameters (their page
  number is overwritten at each turn), \<^verbatim>\<open>pageNumber\<close>, \<^verbatim>\<open>allSlosPages\<close>,
  \<^verbatim>\<open>diags\<close> and the calls issued so far; \<^verbatim>\<open>numberOfSLOs\<close> only sizes the
  final slice. The loop need not end, so not returning is \<open>None\<close>. The pages are
  flattened when the loop breaks.
\<close>

partial_function (option) search_loop ::
  "env \<Rightarrow> search_params \<Rightarrow> int \<Rightarrow> slo_entry list list \<Rightarrow> diagnostics \<Rightarrow> api_call list
     \<Rightarrow> search_result outcome option" where
  [code]: "search_loop e reqParams pageNumber allSlosPages diags calls =
     (let rp = reqParams\<lparr>sp_PageNumber := Some pageNumber\<rparr>;
          calls' = calls @ [CallSearchSLO rp]
      in case SearchSLO e rp of
        (slosResp, httpresp, err) \<Rightarrow>
     (case err of
        Some er \<Rightarrow>
          Some (calls', Inr (SearchFailed (TranslateClientErrorDiag e er httpresp
                                             ''error querying service level objectives'')))
      | None \<Rightarrow>
     (case deref (sr_Slos slosResp) of
        Inl p \<Rightarrow> Some (calls', Inl p)
      | Inr items \<Rightarrow>
     (case collect_page e items diags [] of
        Inl p \<Rightarrow> Some (calls', Inl p)
      | Inr (diags', slosPage) \<Rightarrow>
     (case deref (sr_LastNumber slosResp) of
        Inl p \<Rightarrow> Some (calls', Inl p)
      | Inr lastNumber \<Rightarrow>
          if lastNumber \<le> pageNumber
          then Some (calls', Inr (SearchDone diags' (concat (allSlosPages @ [slosPage]))))
          else search_loop e rp (int64_incr pageNumber) (allSlosPages @ [slosPage]) diags' calls')))))"

definition WithPageSize :: "int \<Rightarrow> search_params \<Rightarrow> search_params" where
  "WithPageSize n r = r\<lparr>sp_PageSize := Some n\<rparr>"

definition WithQuery :: "string \<Rightarrow> search_params \<Rightarrow> search_params" where
  "WithQuery q r = r\<lparr>sp_Query := Some q\<rparr>"

definition searchSLO ::
  "env \<Rightarrow> search_params \<Rightarrow> (diagnostics \<times> slo_entry list) outcome option" where
  "searchSLO e reqParams =
     (case search_loop e (WithPageSize 100 reqParams) 0 [] [] [] of
        None \<Rightarrow> None
      | Some (calls, Inl p) \<Rightarrow> Some (calls, Inl p)
      | Some (calls, Inr (SearchFailed ds)) \<Rightarrow> Some (calls, Inr (ds, []))
      | Some (calls, Inr (SearchDone ds slos)) \<Rightarrow> Some (calls, Inr (ds, slos)))"

definition listSLO :: "env \<Rightarrow> list_params \<Rightarrow> diagnostics \<times> slo_entry list" where
  "listSLO e reqParams = ([], [])"

section \<open>SLO data sources: identity and read\<close>

text \<open>The three identity helpers also log the key (\<^verbatim>\<open>log.Println\<close>); the log is
  left out.\<close>

definition computeSLOsDataSourceIDbySearchEndpointCall :: "string option \<Rightarrow> panic + string" where
  "computeSLOsDataSourceIDbySearchEndpointCall q =
     (case deref q of Inl p \<Rightarrow> Inl p | Inr v \<Rightarrow> Inr (sha256_hex v))"

text \<open>\<^verbatim>\<open>if p != nil { b.WriteString(*p) }\<close>: what a filter adds to the key.\<close>

definition written :: "string option \<Rightarrow> string" where
  "written p = (case p of None \<Rightarrow> [] | Some v \<Rightarrow> v)"

text \<open>The string \<^verbatim>\<open>keyStr\<close> that the list variant hashes.\<close>

definition list_key ::
  "string option \<Rightarrow> string option \<Rightarrow> string option \<Rightarrow> string option \<Rightarrow> string" where
  "list_key ids nameQuery tagsQuery metricsQuery =
     written ids @ ''|'' @ written nameQuery @ ''|'' @ written tagsQuery @ ''|'' @
     written metricsQuery"

definition computeSLOsDataSourceIDByListEndpointCall ::
  "string option \<Rightarrow> string option \<Rightarrow> string option \<Rightarrow> string option \<Rightarrow> string" where
  "computeSLOsDataSourceIDByListEndpointCall ids nameQuery tagsQuery metricsQuery =
     sha256_hex (list_key ids nameQuery tagsQuery metricsQuery)"

definition computeSLOsDataSourceID :: "string option \<Rightarrow> panic + string" where
  "computeSLOsDataSourceID query =
     (case deref query of Inl p \<Rightarrow> Inl p | Inr v \<Rightarrow> Inr (sha256_hex v))"

fun strings_Join :: "string list \<Rightarrow> string \<Rightarrow> string" where
  "strings_Join [] sep = []"
| "strings_Join [x] sep = x"
| "strings_Join (x # y # r) sep = x @ sep @ strings_Join (y # r) sep"

text \<open>
  \<^verbatim>\<open>if v, ok := d.GetOk(k); ok { s := v.(string); ptr = &s }\<close>: the pointer stays nil
  unless the key is set to a non-empty string.
\<close>

definition string_filter :: "resource_data \<Rightarrow> string \<Rightarrow> panic + string option" where
  "string_filter d k =
     (case GetOk d k of
        (v, True) \<Rightarrow> (case assert_string v of Inl p \<Rightarrow> Inl p | Inr s \<Rightarrow> Inr (Some s))
      | (v, False) \<Rightarrow> Inr None)"

definition ids_filter :: "env \<Rightarrow> resource_data \<Rightarrow> panic + string option" where
  "ids_filter e d =
     (case GetOk d ''ids'' of
        (v, True) \<Rightarrow>
          (case assert_list v of
             Inl p \<Rightarrow> Inl p
           | Inr xs \<Rightarrow> Inr (Some (strings_Join (expandStringList e xs) '','')))
      | (v, False) \<Rightarrow> Inr None)"

text \<open>Lines 94 to 98 of the read: the flag starts true and is overwritten only when
  \<^verbatim>\<open>GetOk\<close> reports the key as set.\<close>

definition errorOnNoResults_of :: "resource_data \<Rightarrow> panic + bool" where
  "errorOnNoResults_of d =
     (case GetOk d ''error_on_no_results'' of
        (v, True) \<Rightarrow> assert_bool v
      | (v, False) \<Rightarrow> Inr True)"

definition no_result_message :: string where
  "no_result_message =
     ''your query returned no result, please try a less specific search criteria''"

text \<open>
  Lines 153 to 162 of the read, shared by its two branches. \<^verbatim>\<open>d.Set("slos", ...)\<close>
  is given a list of maps of strings, the shape the schema declares, and is taken to
  succeed.
\<close>

definition finish_read ::
  "resource_data \<Rightarrow> bool \<Rightarrow> diagnostics \<Rightarrow> slo_entry list \<Rightarrow> string
     \<Rightarrow> resource_data \<times> diagnostics" where
  "finish_read d errorOnNoResults diags slos resourceID =
     (if length slos = 0 \<and> errorOnNoResults then (d, Errorf no_result_message)
      else (SetId resourceID (Set_field ''slos'' (VList (map VMap slos)) d), diags))"

text \<open>The structured-filter branch up to the call of \<^verbatim>\<open>listSLO\<close>.\<close>

definition list_filters ::
  "env \<Rightarrow> resource_data
     \<Rightarrow> panic + list_params \<times> string option \<times> string option \<times> string option \<times> string option" where
  "list_filters e d =
     (case ids_filter e d of
        Inl p \<Rightarrow> Inl p
      | Inr idsPtr \<Rightarrow>
     (case string_filter d ''name_query'' of
        Inl p \<Rightarrow> Inl p
      | Inr nameQueryPtr \<Rightarrow>
     (case string_filter d ''tags_query'' of
        Inl p \<Rightarrow> Inl p
      | Inr tagsQueryPtr \<Rightarrow>
     (case string_filter d ''metrics_query'' of
        Inl p \<Rightarrow> Inl p
      | Inr metricsQueryPtr \<Rightarrow>
          Inr (\<lparr>lp_Ids = idsPtr, lp_Query = nameQueryPtr, lp_TagsQuery = tagsQueryPtr,
                lp_MetricsQuery = metricsQueryPtr\<rparr>,
               idsPtr, nameQueryPtr, tagsQueryPtr, metricsQueryPtr)))))"

text \<open>The read of the data source with the \<^verbatim>\<open>q\<close> and structured filters
  (\<^verbatim>\<open>src/unnamed/part_000\<close>).\<close>

definition dataSourceDatadogServiceLevelObjectivesRead_part_000 ::
  "env \<Rightarrow> resource_data \<Rightarrow> (resource_data \<times> diagnostics) outcome option" where
  "dataSourceDatadogServiceLevelObjectivesRead_part_000 e d =
     (case errorOnNoResults_of d of
        Inl p \<Rightarrow> Some ([], Inl p)
      | Inr errorOnNoResults \<Rightarrow>
     (case GetOk d ''q'' of
        (v, True) \<Rightarrow>
          (case assert_string v of
             Inl p \<Rightarrow> Some ([], Inl p)
           | Inr q \<Rightarrow>
          (case searchSLO e (WithQuery q NewSearchSLOOptionalParameters) of
             None \<Rightarrow> None
           | Some (calls, Inl p) \<Rightarrow> Some (calls, Inl p)
           | Some (calls, Inr (diags, slos)) \<Rightarrow>
               if HasError diags then Some (calls, Inr (d, diags))
               else (case computeSLOsDataSourceIDbySearchEndpointCall (Some q) of
                       Inl p \<Rightarrow> Some (calls, Inl p)
                     | Inr resourceID \<Rightarrow>
                         Some (calls, Inr (finish_read d errorOnNoResults diags slos resourceID)))))
      | (v, False) \<Rightarrow>
          (case list_filters e d of
             Inl p \<Rightarrow> Some ([], Inl p)
           | Inr (reqParams, idsPtr, nameQueryPtr, tagsQueryPtr, metricsQueryPtr) \<Rightarrow>
          (case listSLO e reqParams of
             (diags, slos) \<Rightarrow>
               if HasError diags then Some ([], Inr (d, diags))
               else Some ([], Inr (finish_read d errorOnNoResults diags slos
                      (computeSLOsDataSourceIDByListEndpointCall
                         idsPtr nameQueryPtr tagsQueryPtr metricsQueryPtr)))))))"

text \<open>
  The value that this read assigns to \<^verbatim>\<open>resourceID\<close> (lines 100 to 151, the calls
  left aside): the digest of \<^verbatim>\<open>q\<close> when \<^verbatim>\<open>q\<close> is set, of the list key
  otherwise.
\<close>

definition resourceID_part_000 :: "env \<Rightarrow> resource_data \<Rightarrow> panic + string" where
  "resourceID_part_000 e d =
     (case GetOk d ''q'' of
        (v, True) \<Rightarrow>
          (case assert_string v of
             Inl p \<Rightarrow> Inl p
           | Inr q \<Rightarrow> computeSLOsDataSourceIDbySearchEndpointCall (Some q))
      | (v, False) \<Rightarrow>
          (case list_filters e d of
             Inl p \<Rightarrow> Inl p
           | Inr (reqParams, idsPtr, nameQueryPtr, tagsQueryPtr, metricsQueryPtr) \<Rightarrow>
               Inr (computeSLOsDataSourceIDByListEndpointCall
                      idsPtr nameQueryPtr tagsQueryPtr metricsQueryPtr)))"

text \<open>The read of the data source with the single \<^verbatim>\<open>query\<close> attribute
  (\<^verbatim>\<open>data_source_datadog_service_level_objectives.go\<close>).\<close>

definition dataSourceDatadogServiceLevelObjectivesRead ::
  "env \<Rightarrow> resource_data \<Rightarrow> (resource_data \<times> diagnostics) outcome option" where
  "dataSourceDatadogServiceLevelObjectivesRead e d =
     (case string_filter d ''query'' of
        Inl p \<Rightarrow> Some ([], Inl p)
      | Inr queryPtr \<Rightarrow>
     (let reqParams = (case queryPtr of
                         Some query \<Rightarrow> WithQuery query NewSearchSLOOptionalParameters
                       | None \<Rightarrow> NewSearchSLOOptionalParameters)
      in case search_loop e (WithPageSize 100 reqParams) 0 [] [] [] of
        None \<Rightarrow> None
      | Some (calls, Inl p) \<Rightarrow> Some (calls, Inl p)
      | Some (calls, Inr (SearchFailed ds)) \<Rightarrow> Some (calls, Inr (d, ds))
      | Some (calls, Inr (SearchDone diags slos)) \<Rightarrow>
          (let d1 = Set_field ''slos'' (VList (map VMap slos)) d
           in case computeSLOsDataSourceID queryPtr of
                Inl p \<Rightarrow> Some (calls, Inl p)
              | Inr i \<Rightarrow> Some (calls, Inr (SetId i d1, diags)))))"

section \<open>Concrete configurations and collaborators\<close>

text \<open>A stand-in for the error translation: one error diagnostic made of the context
  string and the client's error.\<close>

definition sample_translate :: "client_error \<Rightarrow> http_response option \<Rightarrow> string \<Rightarrow> diagnostics" where
  "sample_translate er h msg = FromErr (msg @ '': '' @ er)"

text \<open>A stand-in for the string-list expansion: the non-empty strings of the list.\<close>

fun sample_expand :: "tf_value list \<Rightarrow> string list" where
  "sample_expand [] = []"
| "sample_expand (VString s # r) = (if s = [] then sample_expand r else s # sample_expand r)"
| "sample_expand (v # r) = sample_expand r"



definition update_config_all_set :: resource_data where
  "update_config_all_set =
     \<lparr>rd_id = ''abc-123'',
      rd_fields = map_of
        [(''policy_type'', VString ''tag''),
         (''tag_key'', VString ''env''),
         (''tag_key_required'', VBool True),
         (''valid_tag_values'', VList [VString ''prod'', VString ''staging''])]\<rparr>"

definition update_config_no_key :: resource_data where
  "update_config_no_key =
     \<lparr>rd_id = ''abc-123'',
      rd_fields = map_of
        [(''policy_type'', VString ''tag''),
         (''tag_key_required'', VBool True),
         (''valid_tag_values'', VList [VString ''prod'', VString ''staging''])]\<rparr>"


definition drifted_response :: policy_response where
  "drifted_response =
     \<lparr>rs_Data = Some
        \<lparr>rs_Id = Some ''abc-123'',
         rs_PolicyType = Some ''tag'',
         rs_Policy = Some \<lparr>MonitorConfigPolicyTagPolicy =
           Some \<lparr>tp_TagKey = Some ''env'', tp_TagKeyRequired = Some True,
                 tp_ValidTagValues = [''prod'', ''staging'']\<rparr>\<rparr>\<rparr>\<rparr>"

definition empty_page :: search_response where
  "empty_page = \<lparr>sr_Slos = Some [], sr_LastNumber = Some 0\<rparr>"

text \<open>A server whose policy responses carry a field the client cannot parse.\<close>

definition drift_env :: env where
  "drift_env =
     \<lparr>TranslateClientErrorDiag = sample_translate,
      CheckForUnparsed = (\<lambda>obj. case obj of
          ObjCreateRequest m \<Rightarrow> None
        | ObjPolicyResponse r \<Rightarrow> Some ''object contains unparsed element''
        | ObjSLO s \<Rightarrow> None),
      expandStringList = sample_expand,
      GetMonitorConfigPolicy = (\<lambda>i. (drifted_response, Some \<lparr>StatusCode = 200\<rparr>, None)),
      CreateMonitorConfigPolicy = (\<lambda>m. (drifted_response, Some \<lparr>StatusCode = 200\<rparr>, None)),
      UpdateMonitorConfigPolicy = (\<lambda>i m. (drifted_response, Some \<lparr>StatusCode = 200\<rparr>, None)),
      DeleteMonitorConfigPolicy = (\<lambda>i. (Some \<lparr>StatusCode = 204\<rparr>, None)),
      SearchSLO = (\<lambda>p. (empty_page, Some \<lparr>StatusCode = 200\<rparr>, None))\<rparr>"

text \<open>A server that answers every policy lookup with the given status and an error.\<close>

definition failing_env :: "int \<Rightarrow> env" where
  "failing_env code =
     drift_env\<lparr>GetMonitorConfigPolicy :=
       (\<lambda>i. (\<lparr>rs_Data = None\<rparr>, Some \<lparr>StatusCode = code\<rparr>, Some ''request failed''))\<rparr>"

text \<open>
  A server with two pages of results for every query: the first holds an item that the
  check accepts and one that it rejects, the second one accepted item; both report 1 as
  the last page number.
\<close>

definition slo_a :: slo where
  "slo_a = \<lparr>slo_Id = Some ''a1'', slo_Name = ''checkout'', slo_SloType = ''metric''\<rparr>"

definition slo_b :: slo where
  "slo_b = \<lparr>slo_Id = Some ''b2'', slo_Name = ''search'', slo_SloType = ''monitor''\<rparr>"

definition slo_c :: slo where
  "slo_c = \<lparr>slo_Id = Some ''c3'', slo_Name = ''login'', slo_SloType = ''metric''\<rparr>"

definition two_pages_items :: "int \<Rightarrow> slo list" where
  "two_pages_items j = (if j = 0 then [slo_a, slo_b] else [slo_c])"

definition two_pages_env :: env where
  "two_pages_env =
     drift_env\<lparr>
       CheckForUnparsed := (\<lambda>obj. case obj of
          ObjCreateRequest m \<Rightarrow> None
        | ObjPolicyResponse r \<Rightarrow> None
        | ObjSLO s \<Rightarrow> if slo_Id s = Some ''b2'' then Some ''unknown field'' else None),
       SearchSLO := (\<lambda>p.
          (\<lparr>sr_Slos = Some (two_pages_items (case sp_PageNumber p of Some j \<Rightarrow> j | None \<Rightarrow> 0)),
            sr_LastNumber = Some 1\<rparr>,
           Some \<lparr>StatusCode = 200\<rparr>, None))\<rparr>"

text \<open>A structured-filter query that asks for no error on an empty result.\<close>

definition flag_off_config :: resource_data where
  "flag_off_config =
     \<lparr>rd_id = [],
      rd_fields = map_of
        [(''name_query'', VString ''checkout''),
         (''error_on_no_results'', VBool False)]\<rparr>"

text \<open>The same request as a free-text query.\<close>

definition flag_off_q_config :: resource_data where
  "flag_off_q_config =
     \<lparr>rd_id = [],
      rd_fields = map_of
        [(''q'', VString ''service:checkout''),
         (''error_on_no_results'', VBool False)]\<rparr>"

text \<open>A single-query read with no \<^verbatim>\<open>query\<close> attribute.\<close>

definition no_query_config :: resource_data where
  "no_query_config = \<lparr>rd_id = [], rd_fields = map_of []\<rparr>"

text \<open>
  An item that the client could not parse: its data is nil, so it has neither id nor
  name nor type, and the unknown-field check rejects it.
\<close>

definition slo_unparsed :: slo where
  "slo_unparsed = \<lparr>slo_Id = None, slo_Name = [], slo_SloType = []\<rparr>"

definition rejects_nil_data :: "api_object \<Rightarrow> string option" where
  "rejects_nil_data obj =
     (case obj of
        ObjCreateRequest m \<Rightarrow> None
      | ObjPolicyResponse r \<Rightarrow> None
      | ObjSLO s \<Rightarrow> if slo_Id s = None then Some ''unknown field'' else None)"

text \<open>A server with one page of results, the unparsed item between two sound ones.\<close>

definition nil_data_env :: env where
  "nil_data_env =
     drift_env\<lparr>
       CheckForUnparsed := rejects_nil_data,
       SearchSLO := (\<lambda>p.
          (\<lparr>sr_Slos = Some [slo_a, slo_unparsed, slo_c], sr_LastNumber = Some 0\<rparr>,
           Some \<lparr>StatusCode = 200\<rparr>, None))\<rparr>"

text \<open>
  A server with two pages of results, both reporting 1 as the last page number; the
  first page ends with the unparsed item.
\<close>

definition broken_pages_items :: "int \<Rightarrow> slo list" where
  "broken_pages_items j = (if j = 0 then [slo_a, slo_unparsed] else [slo_c])"

definition broken_pages_env :: env where
  "broken_pages_env =
     drift_env\<lparr>
       CheckForUnparsed := rejects_nil_data,
       SearchSLO := (\<lambda>p.
          (\<lparr>sr_Slos = Some (broken_pages_items (case sp_PageNumber p of Some j \<Rightarrow> j | None \<Rightarrow> 0)),
            sr_LastNumber = Some 1\<rparr>,
           Some \<lparr>StatusCode = 200\<rparr>, None))\<rparr>"

text \<open>Structured-filter queries whose filters differ.\<close>

definition bar_ids_config :: resource_data where
  "bar_ids_config =
     \<lparr>rd_id = [], rd_fields = map_of [(''ids'', VList [VString ''a|b''])]\<rparr>"

definition split_config :: resource_data where
  "split_config =
     \<lparr>rd_id = [],
      rd_fields = map_of
        [(''ids'', VList [VString ''a'']),
         (''name_query'', VString ''b''),
         (''metrics_query'', VString ''|'')]\<rparr>"

definition two_ids_config :: resource_data where
  "two_ids_config =
     \<lparr>rd_id = [], rd_fields = map_of [(''ids'', VList [VString ''a'', VString ''b''])]\<rparr>"

definition comma_id_config :: resource_data where
  "comma_id_config =
     \<lparr>rd_id = [], rd_fields = map_of [(''ids'', VList [VString ''a,b''])]\<rparr>"

definition id_and_name_config :: resource_data where
  "id_and_name_config =
     \<lparr>rd_id = [],
      rd_fields = map_of [(''ids'', VList [VString ''a'']), (''name_query'', VString ''b'')]\<rparr>"

text \<open>A free-text query that carries structured filters as well.\<close>

definition q_and_filters_config :: resource_data where
  "q_and_filters_config =
     \<lparr>rd_id = [],
      rd_fields = map_of
        [(''q'', VString ''service:checkout''),
         (''ids'', VList [VString ''a'']),
         (''name_query'', VString ''b'')]\<rparr>"

section \<open>What a page contributes\<close>

text \<open>
  The outcome of a page in the words of the specification: an item is accepted when the
  unknown-field check returns no error; the accepted items, in order, give the page's
  records, and the rejected ones, in order, one warning each.
\<close>

definition accepted :: "env \<Rightarrow> slo \<Rightarrow> bool" where
  "accepted e s = (CheckForUnparsed e (ObjSLO s) = None)"

definition id_text :: "slo \<Rightarrow> string" where
  "id_text s = (case slo_Id s of Some i \<Rightarrow> i | None \<Rightarrow> [])"

definition slo_record :: "slo \<Rightarrow> slo_entry" where
  "slo_record s =
     [(''id'', VString (id_text s)), (''name'', VString (slo_Name s)),
      (''type'', VString (slo_SloType s))]"

definition slo_warning :: "env \<Rightarrow> slo \<Rightarrow> diagnostic" where
  "slo_warning e s =
     \<lparr>Severity = Warning,
      Summary = ''skipping service level objective with id: '' @ id_text s,
      Detail = ''service level objective contains unparsed object: '' @
        (case CheckForUnparsed e (ObjSLO s) of Some err \<Rightarrow> err | None \<Rightarrow> [])\<rparr>"

definition page_records :: "env \<Rightarrow> slo list \<Rightarrow> slo_entry list" where
  "page_records e items = map slo_record (filter (accepted e) items)"

definition page_warnings :: "env \<Rightarrow> slo list \<Rightarrow> diagnostics" where
  "page_warnings e items = map (slo_warning e) (filter (\<lambda>s. \<not> accepted e s) items)"

definition has_id :: "slo \<Rightarrow> bool" where
  "has_id s = (slo_Id s \<noteq> None)"

text \<open>The request for page \<open>j\<close>: the caller's parameters with the fixed page size.\<close>

definition page_request :: "search_params \<Rightarrow> int \<Rightarrow> search_params" where
  "page_request reqParams j = reqParams\<lparr>sp_PageSize := Some 100, sp_PageNumber := Some j\<rparr>"

text \<open>The types that the schema of the SLO data source gives its filter attributes; an
  attribute may be absent.\<close>

definition typed_string :: "tf_value option \<Rightarrow> bool" where
  "typed_string v = (case v of None \<Rightarrow> True | Some (VString s) \<Rightarrow> True | Some _ \<Rightarrow> False)"

definition typed_list :: "tf_value option \<Rightarrow> bool" where
  "typed_list v = (case v of None \<Rightarrow> True | Some (VList xs) \<Rightarrow> True | Some _ \<Rightarrow> False)"

definition filters_typed :: "resource_data \<Rightarrow> bool" where
  "filters_typed d =
     (typed_list (Get d ''ids'') \<and> typed_string (Get d ''name_query'') \<and>
      typed_string (Get d ''tags_query'') \<and> typed_string (Get d ''metrics_query''))"

section \<open>What the host can hand to the policy resource\<close>


section \<open>The filters of an SLO read in the words of the specification\<close>

text \<open>
  The text that a filter contributes: the value of a string filter, nothing when it is
  unset; for the id list, its elements (as \<^verbatim>\<open>expandStringList\<close> gives them) joined
  by commas, nothing when the list is unset or empty.
\<close>

definition filter_text :: "tf_value option \<Rightarrow> string" where
  "filter_text v = (case v of Some (VString s) \<Rightarrow> s | _ \<Rightarrow> [])"

definition ids_text :: "env \<Rightarrow> tf_value option \<Rightarrow> string" where
  "ids_text e v =
     (case v of
        Some (VList xs) \<Rightarrow> if xs = [] then [] else strings_Join (expandStringList e xs) '',''
      | _ \<Rightarrow> [])"

text \<open>The four texts in their fixed order, a bar after each of the first three.\<close>

definition joined_key :: "string \<Rightarrow> string \<Rightarrow> string \<Rightarrow> string \<Rightarrow> string" where
  "joined_key i n t m = i @ ''|'' @ n @ ''|'' @ t @ ''|'' @ m"

definition bar_free :: "string \<Rightarrow> bool" where
  "bar_free s = (CHR ''|'' \<notin> set s)"

section \<open>Monitor config policy: properties\<close>

subsection \<open>The update payload\<close>

lemma update_tag_key_keeps:
  "update_tag_key d t = Inr t' \<Longrightarrow>
     tp_TagKeyRequired t' = tp_TagKeyRequired t \<and> tp_ValidTagValues t' = tp_ValidTagValues t"
  by (auto simp: update_tag_key_def SetTagKey_def split: prod.splits bool.splits sum.splits)

lemma update_tag_key_string:
  "update_tag_key d t = Inr t' \<Longrightarrow> snd (GetOk d ''tag_key'') \<Longrightarrow>
     (\<exists>s. fst (GetOk d ''tag_key'') = Some (VString s))"
  apply (auto simp: update_tag_key_def SetTagKey_def split: prod.splits bool.splits sum.splits)
  subgoal for a by (cases a rule: assert_string.cases) auto
  done

lemma update_tag_key_required_keeps:
  "update_tag_key_required d t = Inr t' \<Longrightarrow> fst (GetOk d ''tag_key'') = Some (VString s) \<Longrightarrow> t' = t"
  by (auto simp: update_tag_key_required_def split: prod.splits bool.splits sum.splits)

lemma update_tag_key_required_unset:
  "update_tag_key_required d t = Inr t' \<Longrightarrow> \<not> snd (GetOk d ''tag_key'') \<Longrightarrow> t' = t"
  by (auto simp: update_tag_key_required_def split: prod.splits bool.splits sum.splits)

lemma update_valid_tag_values_keeps:
  "update_valid_tag_values d t = Inr t' \<Longrightarrow> t' = t"
  by (auto simp: update_valid_tag_values_def split: prod.splits bool.splits sum.splits)

text \<open>
  Whatever the configuration, a payload that \<^verbatim>\<open>buildUpdateRequestPolicy\<close> returns
  has neither \<^verbatim>\<open>tag_key_required\<close> nor \<^verbatim>\<open>valid_tag_values\<close>: the flag is set
  only from a \<^verbatim>\<open>"tag_key"\<close> value that is a bool, which the first block has then
  already rejected, and the list is never stored.
\<close>

lemma buildUpdateRequestPolicy_never_sets:
  assumes "buildUpdateRequestPolicy d policyType = Inr (Some pol)"
  shows "\<exists>t. MonitorConfigPolicyTagPolicy pol = Some t \<and>
             tp_TagKeyRequired t = None \<and> tp_ValidTagValues t = []"
proof -
  from assms obtain t1 t2 t3 where
    1: "update_tag_key d NewMonitorConfigPolicyTagPolicy = Inr t1" and
    2: "update_tag_key_required d t1 = Inr t2" and
    3: "update_valid_tag_values d t2 = Inr t3" and
    p: "pol = \<lparr>MonitorConfigPolicyTagPolicy = Some t3\<rparr>"
    by (auto simp: buildUpdateRequestPolicy_def split: if_splits sum.splits)
  have k1: "tp_TagKeyRequired t1 = None \<and> tp_ValidTagValues t1 = []"
    using update_tag_key_keeps [OF 1] by (simp add: NewMonitorConfigPolicyTagPolicy_def)
  have "t2 = t1"
  proof (cases "snd (GetOk d ''tag_key'')")
    case True
    then obtain s where "fst (GetOk d ''tag_key'') = Some (VString s)"
      using update_tag_key_string [OF 1] by blast
    then show ?thesis using update_tag_key_required_keeps [OF 2] by simp
  next
    case False
    then show ?thesis using update_tag_key_required_unset [OF 2] by simp
  qed
  moreover have "t3 = t2" using update_valid_tag_values_keeps [OF 3] .
  ultimately show ?thesis using k1 p by simp
qed

text \<open>
  Claim C1 (the update payload for a tag policy holds every explicitly set field, each
  read under its own key). On the code: with all three fields set, the second block
  reads \<^verbatim>\<open>"tag_key"\<close> again and asserts the string to be a bool, so the builder
  panics; with \<^verbatim>\<open>tag_key\<close> unset and the other two set, the payload holds none of
  the fields that were set.
\<close>

theorem buildUpdateRequestPolicy_misreads_and_drops:
  "buildUpdateRequestPolicy update_config_all_set MONITORCONFIGPOLICYTYPE_TAG = Inl TypeAssertion \<and>
   buildUpdateRequestPolicy update_config_no_key MONITORCONFIGPOLICYTYPE_TAG =
     Inr (Some \<lparr>MonitorConfigPolicyTagPolicy =
            Some \<lparr>tp_TagKey = None, tp_TagKeyRequired = None, tp_ValidTagValues = []\<rparr>\<rparr>)"
  by (simp add: buildUpdateRequestPolicy_def update_tag_key_def update_tag_key_required_def
      update_valid_tag_values_def GetOk_def update_config_all_set_def update_config_no_key_def
      MONITORCONFIGPOLICYTYPE_TAG_def NewMonitorConfigPolicyTagPolicy_def SetTagKey_def)

subsection \<open>Create with an unsupported policy type\<close>





subsection \<open>Unknown fields in the response\<close>






subsection \<open>Read of a policy that no longer exists\<close>

text \<open>
  Claim C8: when the lookup fails with HTTP status 404, the read sets the identity to the
  empty string and returns no diagnostics; when it fails in any other way (no HTTP
  response, or another status), the read returns the translated error and leaves the
  resource data, its identity included, as it was.
\<close>

theorem read_not_found_clears_identity:
  assumes "GetMonitorConfigPolicy e (Id_of d) = (resp, httpresp, Some err)"
  shows "(\<forall>h. httpresp = Some h \<and> StatusCode h = 404 \<longrightarrow>
            resourceDatadogMonitorConfigPolicyRead e d =
              ([CallGetMonitorConfigPolicy (Id_of d)], Inr (d\<lparr>rd_id := []\<rparr>, []))) \<and>
         (httpresp = None \<or> (\<exists>h. httpresp = Some h \<and> StatusCode h \<noteq> 404) \<longrightarrow>
            resourceDatadogMonitorConfigPolicyRead e d =
              ([CallGetMonitorConfigPolicy (Id_of d)],
               Inr (d, TranslateClientErrorDiag e err httpresp
                         ''error getting monitor config policy'')))"
  using assms
  by (auto simp: resourceDatadogMonitorConfigPolicyRead_def is404_def SetId_def)

theorem read_not_found_clears_identity_witness:
  "resourceDatadogMonitorConfigPolicyRead (failing_env 404) update_config_no_key =
     ([CallGetMonitorConfigPolicy ''abc-123''], Inr (update_config_no_key\<lparr>rd_id := []\<rparr>, [])) \<and>
   resourceDatadogMonitorConfigPolicyRead (failing_env 403) update_config_no_key =
     ([CallGetMonitorConfigPolicy ''abc-123''],
      Inr (update_config_no_key,
           FromErr ''error getting monitor config policy: request failed''))"
proof -
  have i: "Id_of update_config_no_key = ''abc-123''"
    by (simp add: Id_of_def update_config_no_key_def)
  have g: "GetMonitorConfigPolicy (failing_env c) (Id_of update_config_no_key) =
             (\<lparr>rs_Data = None\<rparr>, Some \<lparr>StatusCode = c\<rparr>, Some ''request failed'')" for c
    by (simp add: failing_env_def)
  have t: "TranslateClientErrorDiag (failing_env c) = sample_translate" for c
    by (simp add: failing_env_def drift_env_def)
  show ?thesis
    using read_not_found_clears_identity [OF g [of 404]]
      read_not_found_clears_identity [OF g [of 403]]
    by (simp add: i t sample_translate_def)
qed

section \<open>SLO search: properties of the pagination loop\<close>

lemma collect_page_eq:
  "list_all has_id items \<Longrightarrow>
   collect_page e items diags slosPage =
     Inr (diags @ page_warnings e items, slosPage @ page_records e items)"
proof (induction items arbitrary: diags slosPage)
  case Nil
  then show ?case by (simp add: page_warnings_def page_records_def)
next
  case (Cons s ss)
  then obtain i where i: "slo_Id s = Some i" by (auto simp: has_id_def)
  from Cons have ss: "list_all has_id ss" by simp
  show ?case
  proof (cases "CheckForUnparsed e (ObjSLO s)")
    case None
    then show ?thesis
      using Cons.IH [OF ss] i
      by (simp add: deref_def page_warnings_def page_records_def accepted_def slo_record_def
          slo_map_def id_text_def)
  next
    case (Some err)
    then show ?thesis
      using Cons.IH [OF ss] i
      by (simp add: deref_def page_warnings_def page_records_def accepted_def slo_warning_def
          skip_warning_def id_text_def)
  qed
qed

lemma search_loop_run:
  assumes "n = nat (k - p)" and "p \<le> k" and "k < 2 ^ 63"
    and "\<forall>j. p \<le> j \<and> j \<le> k \<longrightarrow>
           SearchSLO e (rp\<lparr>sp_PageNumber := Some j\<rparr>) =
             (\<lparr>sr_Slos = Some (items j), sr_LastNumber = Some (lastn j)\<rparr>, hr j, None)"
    and "\<forall>j. p \<le> j \<and> j \<le> k \<longrightarrow> list_all has_id (items j)"
    and "\<forall>j. p \<le> j \<and> j < k \<longrightarrow> j < lastn j"
    and "lastn k \<le> k"
  shows "search_loop e rp p pages diags calls =
     Some (calls @ map (\<lambda>j. CallSearchSLO (rp\<lparr>sp_PageNumber := Some j\<rparr>)) [p..k],
           Inr (SearchDone (diags @ concat (map (\<lambda>j. page_warnings e (items j)) [p..k]))
                  (concat pages @ concat (map (\<lambda>j. page_records e (items j)) [p..k]))))"
  using assms
proof (induction n arbitrary: p rp pages diags calls)
  case 0
  then have pk: "p = k" by simp
  have here: "SearchSLO e (rp\<lparr>sp_PageNumber := Some k\<rparr>) =
             (\<lparr>sr_Slos = Some (items k), sr_LastNumber = Some (lastn k)\<rparr>, hr k, None)"
    using 0 pk by simp
  have ids: "list_all has_id (items k)" using 0 pk by simp
  show ?case
    unfolding pk
    apply (subst search_loop.simps)
    using \<open>lastn k \<le> k\<close>
    by (simp add: here deref_def collect_page_eq [OF ids] Let_def)
next
  case (Suc n)
  then have lt: "p < k" by simp
  have here: "SearchSLO e (rp\<lparr>sp_PageNumber := Some p\<rparr>) =
             (\<lparr>sr_Slos = Some (items p), sr_LastNumber = Some (lastn p)\<rparr>, hr p, None)"
    using Suc.prems lt by simp
  have ids: "list_all has_id (items p)" using Suc.prems lt by simp
  have more: "\<not> lastn p \<le> p" using Suc.prems lt by auto
  have inc: "int64_incr p = p + 1" using lt \<open>k < 2 ^ 63\<close> by (simp add: int64_incr_def)
  have up: "[p..k] = p # [p + 1..k]" using lt by (simp add: upto_rec1)
  have rp': "(rp\<lparr>sp_PageNumber := Some p\<rparr>)\<lparr>sp_PageNumber := Some j\<rparr> = rp\<lparr>sp_PageNumber := Some j\<rparr>" for j
    by simp
  have IH: "search_loop e (rp\<lparr>sp_PageNumber := Some p\<rparr>) (p + 1) pages' diags' calls' =
     Some (calls' @ map (\<lambda>j. CallSearchSLO (rp\<lparr>sp_PageNumber := Some j\<rparr>)) [p + 1..k],
           Inr (SearchDone (diags' @ concat (map (\<lambda>j. page_warnings e (items j)) [p + 1..k]))
                  (concat pages' @ concat (map (\<lambda>j. page_records e (items j)) [p + 1..k]))))"
    for pages' diags' calls'
    using Suc.IH [of "p + 1" "rp\<lparr>sp_PageNumber := Some p\<rparr>" pages' diags' calls'] Suc.prems lt
    unfolding rp' by auto
  show ?case
    apply (subst search_loop.simps)
    using more
    by (simp add: here deref_def collect_page_eq [OF ids] Let_def inc IH up)
qed

lemma HasError_append: "HasError (xs @ ys) = (HasError xs \<or> HasError ys)"
  by (simp add: HasError_def)

lemma HasError_page_warnings: "\<not> HasError (page_warnings e items)"
  by (induction items) (auto simp: HasError_def page_warnings_def slo_warning_def)

lemma HasError_concat_page_warnings:
  "\<not> HasError (concat (map (\<lambda>j. page_warnings e (items j)) js))"
  by (induction js) (simp_all add: HasError_append HasError_page_warnings, simp add: HasError_def)

text \<open>
  The loop on well-formed pages: let the server answer the requests for pages \<open>0\<close> to
  \<open>k\<close> (page size 100) without error, let every item carry an id, let every page before
  \<open>k\<close> report a last page number greater than its own number and page \<open>k\<close> report
  \<open>k\<close>. Then the search returns, it has issued exactly the \<open>k + 1\<close> requests for the
  pages \<open>0\<close> to \<open>k\<close> in this order, and its list is the records of the accepted items
  of these pages, page after page.
\<close>

lemma searchSLO_fetches_pages_in_order:
  assumes "0 \<le> k" and "k < 2 ^ 63"
    and "\<forall>j. 0 \<le> j \<and> j \<le> k \<longrightarrow>
           SearchSLO e (page_request reqParams j) =
             (\<lparr>sr_Slos = Some (items j), sr_LastNumber = Some (lastn j)\<rparr>, hr j, None)"
    and "\<forall>j. 0 \<le> j \<and> j \<le> k \<longrightarrow> list_all has_id (items j)"
    and "\<forall>j. 0 \<le> j \<and> j < k \<longrightarrow> j < lastn j"
    and "lastn k = k"
  shows "\<exists>diags. searchSLO e reqParams =
           Some (map (\<lambda>j. CallSearchSLO (page_request reqParams j)) [0..k],
                 Inr (diags, concat (map (\<lambda>j. page_records e (items j)) [0..k]))) \<and>
         length (map (\<lambda>j. CallSearchSLO (page_request reqParams j)) [0..k]) = nat k + 1"
proof -
  have rq: "(WithPageSize 100 reqParams)\<lparr>sp_PageNumber := Some j\<rparr> = page_request reqParams j" for j
    by (simp add: WithPageSize_def page_request_def)
  have "search_loop e (WithPageSize 100 reqParams) 0 [] [] [] =
     Some ([] @ map (\<lambda>j. CallSearchSLO ((WithPageSize 100 reqParams)\<lparr>sp_PageNumber := Some j\<rparr>)) [0..k],
           Inr (SearchDone ([] @ concat (map (\<lambda>j. page_warnings e (items j)) [0..k]))
                  (concat [] @ concat (map (\<lambda>j. page_records e (items j)) [0..k]))))"
    by (rule search_loop_run [where lastn = lastn and hr = hr and n = "nat (k - 0)"])
       (use assms in \<open>simp_all add: rq\<close>)
  then have "searchSLO e reqParams =
           Some (map (\<lambda>j. CallSearchSLO (page_request reqParams j)) [0..k],
                 Inr (concat (map (\<lambda>j. page_warnings e (items j)) [0..k]),
                      concat (map (\<lambda>j. page_records e (items j)) [0..k])))"
    by (simp add: searchSLO_def rq)
  moreover have "length [0..k] = nat k + 1"
    using \<open>0 \<le> k\<close> by (simp add: nat_add_distrib)
  ultimately show ?thesis by simp
qed

lemma upto_0_1: "[0..1::int] = [0, 1]"
  by (simp add: upto_rec1)

lemma two_pages_fetch:
  "SearchSLO two_pages_env (page_request NewSearchSLOOptionalParameters j) =
     (\<lparr>sr_Slos = Some (two_pages_items j), sr_LastNumber = Some 1\<rparr>, Some \<lparr>StatusCode = 200\<rparr>, None)"
  by (simp add: two_pages_env_def page_request_def)

lemma two_pages_ids: "list_all has_id (two_pages_items j)"
  by (simp add: two_pages_items_def has_id_def slo_a_def slo_b_def slo_c_def)

lemma two_pages_records:
  "page_records two_pages_env (two_pages_items 0) = [slo_record slo_a]"
  "page_records two_pages_env (two_pages_items 1) = [slo_record slo_c]"
  by (simp_all add: page_records_def two_pages_items_def accepted_def two_pages_env_def
      slo_a_def slo_b_def slo_c_def)

lemma two_pages_warnings:
  "page_warnings two_pages_env (two_pages_items 0) = [slo_warning two_pages_env slo_b]"
  "page_warnings two_pages_env (two_pages_items 1) = []"
  by (simp_all add: page_warnings_def two_pages_items_def accepted_def two_pages_env_def
      slo_a_def slo_b_def slo_c_def)

lemma two_pages_search:
  "\<exists>diags. searchSLO two_pages_env NewSearchSLOOptionalParameters =
     Some ([CallSearchSLO \<lparr>sp_Query = None, sp_PageSize = Some 100, sp_PageNumber = Some 0\<rparr>,
            CallSearchSLO \<lparr>sp_Query = None, sp_PageSize = Some 100, sp_PageNumber = Some 1\<rparr>],
           Inr (diags, [slo_record slo_a, slo_record slo_c]))"
proof -
  have "\<exists>diags. searchSLO two_pages_env NewSearchSLOOptionalParameters =
           Some (map (\<lambda>j. CallSearchSLO (page_request NewSearchSLOOptionalParameters j)) [0..1],
                 Inr (diags, concat (map (\<lambda>j. page_records two_pages_env (two_pages_items j)) [0..1]))) \<and>
         length (map (\<lambda>j. CallSearchSLO (page_request NewSearchSLOOptionalParameters j)) [0..1]) = nat 1 + 1"
    by (rule searchSLO_fetches_pages_in_order
          [where lastn = "\<lambda>j. 1" and hr = "\<lambda>j. Some \<lparr>StatusCode = 200\<rparr>"])
       (simp_all add: two_pages_fetch two_pages_ids)
  then show ?thesis
    by (simp add: upto_0_1 two_pages_records page_request_def NewSearchSLOOptionalParameters_def)
qed

text \<open>
  Under the same conditions, with page \<open>k\<close> ending the loop, the search does not fail;
  its diagnostics are one warning for each rejected item, in order, none of them an
  error, and its list is the records of all other items, in order.
\<close>

lemma search_skips_rejected_items:
  assumes "0 \<le> k" and "k < 2 ^ 63"
    and "\<forall>j. 0 \<le> j \<and> j \<le> k \<longrightarrow>
           SearchSLO e (page_request reqParams j) =
             (\<lparr>sr_Slos = Some (items j), sr_LastNumber = Some (lastn j)\<rparr>, hr j, None)"
    and "\<forall>j. 0 \<le> j \<and> j \<le> k \<longrightarrow> list_all has_id (items j)"
    and "\<forall>j. 0 \<le> j \<and> j < k \<longrightarrow> j < lastn j"
    and "lastn k \<le> k"
  shows "(\<exists>calls.
            search_loop e (WithPageSize 100 reqParams) 0 [] [] [] =
              Some (calls,
                Inr (SearchDone
                  (concat (map (\<lambda>j. map (slo_warning e) (filter (\<lambda>s. \<not> accepted e s) (items j))) [0..k]))
                  (concat (map (\<lambda>j. map slo_record (filter (accepted e) (items j))) [0..k])))) \<and>
            searchSLO e reqParams =
              Some (calls,
                Inr (concat (map (\<lambda>j. map (slo_warning e) (filter (\<lambda>s. \<not> accepted e s) (items j))) [0..k]),
                     concat (map (\<lambda>j. map slo_record (filter (accepted e) (items j))) [0..k])))) \<and>
         \<not> HasError
            (concat (map (\<lambda>j. map (slo_warning e) (filter (\<lambda>s. \<not> accepted e s) (items j))) [0..k])) \<and>
         (\<forall>s i. slo_Id s = Some i \<longrightarrow>
            Severity (slo_warning e s) = Warning \<and>
            Summary (slo_warning e s) = ''skipping service level objective with id: '' @ i \<and>
            slo_record s =
              [(''id'', VString i), (''name'', VString (slo_Name s)),
               (''type'', VString (slo_SloType s))])"
proof -
  have rq: "(WithPageSize 100 reqParams)\<lparr>sp_PageNumber := Some j\<rparr> = page_request reqParams j" for j
    by (simp add: WithPageSize_def page_request_def)
  have run: "search_loop e (WithPageSize 100 reqParams) 0 [] [] [] =
     Some ([] @ map (\<lambda>j. CallSearchSLO ((WithPageSize 100 reqParams)\<lparr>sp_PageNumber := Some j\<rparr>)) [0..k],
           Inr (SearchDone ([] @ concat (map (\<lambda>j. page_warnings e (items j)) [0..k]))
                  (concat [] @ concat (map (\<lambda>j. page_records e (items j)) [0..k]))))"
    by (rule search_loop_run [where lastn = lastn and hr = hr and n = "nat (k - 0)"])
       (use assms in \<open>simp_all add: rq\<close>)
  have w: "(\<lambda>j. map (slo_warning e) (filter (\<lambda>s. \<not> accepted e s) (items j))) =
           (\<lambda>j. page_warnings e (items j))"
    by (simp add: page_warnings_def)
  have r: "(\<lambda>j. map slo_record (filter (accepted e) (items j))) = (\<lambda>j. page_records e (items j))"
    by (simp add: page_records_def)
  have 1: "\<exists>calls.
            search_loop e (WithPageSize 100 reqParams) 0 [] [] [] =
              Some (calls,
                Inr (SearchDone (concat (map (\<lambda>j. page_warnings e (items j)) [0..k]))
                       (concat (map (\<lambda>j. page_records e (items j)) [0..k])))) \<and>
            searchSLO e reqParams =
              Some (calls,
                Inr (concat (map (\<lambda>j. page_warnings e (items j)) [0..k]),
                     concat (map (\<lambda>j. page_records e (items j)) [0..k])))"
    using run by (simp add: searchSLO_def)
  have 2: "\<not> HasError (concat (map (\<lambda>j. page_warnings e (items j)) [0..k]))"
    by (rule HasError_concat_page_warnings)
  have 3: "\<forall>s i. slo_Id s = Some i \<longrightarrow>
            Severity (slo_warning e s) = Warning \<and>
            Summary (slo_warning e s) = ''skipping service level objective with id: '' @ i \<and>
            slo_record s =
              [(''id'', VString i), (''name'', VString (slo_Name s)),
               (''type'', VString (slo_SloType s))]"
    by (simp add: slo_warning_def slo_record_def id_text_def)
  show ?thesis
    unfolding w r using 1 2 3 by blast
qed

lemma two_pages_loop:
  "(\<exists>calls.
      search_loop two_pages_env (WithPageSize 100 NewSearchSLOOptionalParameters) 0 [] [] [] =
        Some (calls,
          Inr (SearchDone
            [\<lparr>Severity = Warning,
              Summary = ''skipping service level objective with id: b2'',
              Detail = ''service level objective contains unparsed object: unknown field''\<rparr>]
            [[(''id'', VString ''a1''), (''name'', VString ''checkout''), (''type'', VString ''metric'')],
             [(''id'', VString ''c3''), (''name'', VString ''login''), (''type'', VString ''metric'')]])))"
proof -
  have a: "filter (accepted two_pages_env) (two_pages_items 0) = [slo_a]"
          "filter (accepted two_pages_env) (two_pages_items 1) = [slo_c]"
          "filter (\<lambda>s. \<not> accepted two_pages_env s) (two_pages_items 0) = [slo_b]"
          "filter (\<lambda>s. \<not> accepted two_pages_env s) (two_pages_items 1) = []"
    by (simp_all add: two_pages_items_def accepted_def two_pages_env_def
        slo_a_def slo_b_def slo_c_def)
  have v: "slo_warning two_pages_env slo_b =
            \<lparr>Severity = Warning,
              Summary = ''skipping service level objective with id: b2'',
              Detail = ''service level objective contains unparsed object: unknown field''\<rparr>"
          "slo_record slo_a =
             [(''id'', VString ''a1''), (''name'', VString ''checkout''), (''type'', VString ''metric'')]"
          "slo_record slo_c =
             [(''id'', VString ''c3''), (''name'', VString ''login''), (''type'', VString ''metric'')]"
    by (simp_all add: slo_warning_def slo_record_def id_text_def
        two_pages_env_def slo_a_def slo_b_def slo_c_def)
  have "0 \<le> (1::int)" "(1::int) < 2 ^ 63" "(1::int) \<le> 1" by simp_all
  from search_skips_rejected_items
         [where e = two_pages_env and items = two_pages_items and k = 1
            and lastn = "\<lambda>j. 1" and hr = "\<lambda>j. Some \<lparr>StatusCode = 200\<rparr>"
            and reqParams = NewSearchSLOOptionalParameters, OF this(1,2) _ _ _ this(3)]
  show ?thesis
    by (simp add: two_pages_fetch two_pages_ids upto_0_1 a v) blast
qed

subsection \<open>Items without an id\<close>

text \<open>
  Claim C4 (when the page fetched at number \<open>k\<close> reports \<open>k\<close> as the last page number,
  the loop ends after exactly \<open>k + 1\<close> fetches and returns all accepted items in page
  order). On the code: against a server with two pages, both reporting 1, whose first
  page holds an accepted item and an item that the client could not parse, the search
  issues one request and ends in a nil dereference of that item's id; the second page,
  with its accepted item, is never fetched and no list is returned.
\<close>

theorem search_stops_at_item_without_id:
  "sr_LastNumber (fst (SearchSLO broken_pages_env
      (page_request NewSearchSLOOptionalParameters 1))) = Some 1 \<and>
   filter (accepted broken_pages_env) (broken_pages_items 0 @ broken_pages_items 1) =
     [slo_a, slo_c] \<and>
   searchSLO broken_pages_env NewSearchSLOOptionalParameters =
     Some ([CallSearchSLO \<lparr>sp_Query = None, sp_PageSize = Some 100, sp_PageNumber = Some 0\<rparr>],
           Inl NilDereference)"
proof -
  have 1: "sr_LastNumber (fst (SearchSLO broken_pages_env
      (page_request NewSearchSLOOptionalParameters 1))) = Some 1"
    by (simp add: broken_pages_env_def)
  have 2: "filter (accepted broken_pages_env) (broken_pages_items 0 @ broken_pages_items 1) =
     [slo_a, slo_c]"
    by (simp add: accepted_def broken_pages_env_def broken_pages_items_def rejects_nil_data_def
        slo_a_def slo_c_def slo_unparsed_def)
  have "search_loop broken_pages_env (WithPageSize 100 NewSearchSLOOptionalParameters) 0 [] [] [] =
     Some ([CallSearchSLO \<lparr>sp_Query = None, sp_PageSize = Some 100, sp_PageNumber = Some 0\<rparr>],
           Inl NilDereference)"
    by (subst search_loop.simps)
       (simp add: broken_pages_env_def broken_pages_items_def
          rejects_nil_data_def deref_def WithPageSize_def NewSearchSLOOptionalParameters_def
          slo_a_def slo_unparsed_def)
  then have 3: "searchSLO broken_pages_env NewSearchSLOOptionalParameters =
     Some ([CallSearchSLO \<lparr>sp_Query = None, sp_PageSize = Some 100, sp_PageNumber = Some 0\<rparr>],
           Inl NilDereference)"
    by (simp add: searchSLO_def)
  show ?thesis using 1 2 3 by blast
qed

text \<open>
  Claim C9 (an item that the unknown-field check rejects is left out with one warning
  that names its id, the other items are kept, and the query does not fail because of
  it). On the code: the warning is built by dereferencing the item's id. Against a
  server whose only page holds an item that the client could not parse between two
  sound ones, the loop, \<^verbatim>\<open>searchSLO\<close> and the read with \<^verbatim>\<open>q\<close> set all end in a
  nil dereference: no warning, no list. Where the rejected item has an id, it is
  skipped with its warning as the claim says.
\<close>

theorem rejected_item_without_id_fails_search:
  "CheckForUnparsed nil_data_env (ObjSLO slo_unparsed) = Some ''unknown field'' \<and>
   search_loop nil_data_env (WithPageSize 100 NewSearchSLOOptionalParameters) 0 [] [] [] =
     Some ([CallSearchSLO \<lparr>sp_Query = None, sp_PageSize = Some 100, sp_PageNumber = Some 0\<rparr>],
           Inl NilDereference) \<and>
   searchSLO nil_data_env NewSearchSLOOptionalParameters =
     Some ([CallSearchSLO \<lparr>sp_Query = None, sp_PageSize = Some 100, sp_PageNumber = Some 0\<rparr>],
           Inl NilDereference) \<and>
   dataSourceDatadogServiceLevelObjectivesRead_part_000 nil_data_env flag_off_q_config =
     Some ([CallSearchSLO \<lparr>sp_Query = Some ''service:checkout'', sp_PageSize = Some 100,
                            sp_PageNumber = Some 0\<rparr>],
           Inl NilDereference) \<and>
   collect_page two_pages_env [slo_a, slo_b] [] [] =
     Inr ([\<lparr>Severity = Warning,
            Summary = ''skipping service level objective with id: b2'',
            Detail = ''service level objective contains unparsed object: unknown field''\<rparr>],
          [[(''id'', VString ''a1''), (''name'', VString ''checkout''),
            (''type'', VString ''metric'')]])"
proof -
  have 1: "CheckForUnparsed nil_data_env (ObjSLO slo_unparsed) = Some ''unknown field''"
    by (simp add: nil_data_env_def rejects_nil_data_def slo_unparsed_def)
  have l: "search_loop nil_data_env (WithPageSize 100 rp) 0 [] [] [] =
     Some ([CallSearchSLO (page_request rp 0)], Inl NilDereference)" for rp
    by (subst search_loop.simps)
       (simp add: nil_data_env_def rejects_nil_data_def deref_def
          WithPageSize_def page_request_def slo_a_def slo_unparsed_def)
  have 2: "search_loop nil_data_env (WithPageSize 100 NewSearchSLOOptionalParameters) 0 [] [] [] =
     Some ([CallSearchSLO \<lparr>sp_Query = None, sp_PageSize = Some 100, sp_PageNumber = Some 0\<rparr>],
           Inl NilDereference)"
    by (simp add: l page_request_def NewSearchSLOOptionalParameters_def)
  have 3: "searchSLO nil_data_env NewSearchSLOOptionalParameters =
     Some ([CallSearchSLO \<lparr>sp_Query = None, sp_PageSize = Some 100, sp_PageNumber = Some 0\<rparr>],
           Inl NilDereference)"
    by (simp add: searchSLO_def 2)
  have q: "GetOk flag_off_q_config ''q'' = (Some (VString ''service:checkout''), True)"
          "errorOnNoResults_of flag_off_q_config = Inr True"
    by (simp_all add: GetOk_def errorOnNoResults_of_def flag_off_q_config_def)
  have 4: "dataSourceDatadogServiceLevelObjectivesRead_part_000 nil_data_env flag_off_q_config =
     Some ([CallSearchSLO \<lparr>sp_Query = Some ''service:checkout'', sp_PageSize = Some 100,
                            sp_PageNumber = Some 0\<rparr>],
           Inl NilDereference)"
    by (simp add: dataSourceDatadogServiceLevelObjectivesRead_part_000_def q searchSLO_def l
        page_request_def WithQuery_def NewSearchSLOOptionalParameters_def)
  have 5: "collect_page two_pages_env [slo_a, slo_b] [] [] =
     Inr ([\<lparr>Severity = Warning,
            Summary = ''skipping service level objective with id: b2'',
            Detail = ''service level objective contains unparsed object: unknown field''\<rparr>],
          [[(''id'', VString ''a1''), (''name'', VString ''checkout''),
            (''type'', VString ''metric'')]])"
    by (simp add: two_pages_env_def deref_def skip_warning_def slo_map_def slo_a_def slo_b_def)
  show ?thesis using 1 2 3 4 5 by blast
qed

section \<open>SLO data sources: properties of the reads\<close>

lemma string_filter_typed:
  "typed_string (Get d k) \<Longrightarrow> \<exists>p. string_filter d k = Inr p"
  by (auto simp: string_filter_def GetOk_def Get_def typed_string_def
      split: option.splits tf_value.splits bool.splits)

lemma ids_filter_typed:
  "typed_list (Get d ''ids'') \<Longrightarrow> \<exists>p. ids_filter e d = Inr p"
  by (auto simp: ids_filter_def GetOk_def Get_def typed_list_def
      split: option.splits tf_value.splits bool.splits)

lemma list_filters_typed:
  assumes "filters_typed d"
  shows "\<exists>rp i n t m. list_filters e d = Inr (rp, i, n, t, m)"
proof -
  from assms obtain i where i: "ids_filter e d = Inr i"
    using ids_filter_typed by (auto simp: filters_typed_def)
  from assms obtain n where n: "string_filter d ''name_query'' = Inr n"
    using string_filter_typed by (auto simp: filters_typed_def)
  from assms obtain t where t: "string_filter d ''tags_query'' = Inr t"
    using string_filter_typed by (auto simp: filters_typed_def)
  from assms obtain m where m: "string_filter d ''metrics_query'' = Inr m"
    using string_filter_typed by (auto simp: filters_typed_def)
  show ?thesis by (simp add: list_filters_def i n t m)
qed

lemma errorOnNoResults_never_false: "errorOnNoResults_of d \<noteq> Inr False"
proof (cases "rd_fields d ''error_on_no_results''")
  case None
  then show ?thesis by (simp add: errorOnNoResults_of_def GetOk_def)
next
  case (Some v)
  then show ?thesis
    by (cases v) (auto simp: errorOnNoResults_of_def GetOk_def split: bool.splits)
qed

text \<open>
  Claim C5: when \<^verbatim>\<open>q\<close> is not set (and the filter attributes have the types of the
  schema), \<^verbatim>\<open>listSLO\<close> returns the empty list whatever the filters are, and whenever
  the flag \<^verbatim>\<open>error_on_no_results\<close> is in effect as true the read fails with the
  zero-result error, without any remote call.
\<close>

theorem structured_filter_read_is_empty:
  assumes "\<not> snd (GetOk d ''q'')" and "filters_typed d"
  shows "listSLO e reqParams = ([], []) \<and>
         (errorOnNoResults_of d = Inr True \<longrightarrow>
            dataSourceDatadogServiceLevelObjectivesRead_part_000 e d =
              Some ([], Inr (d, Errorf no_result_message)))"
proof -
  obtain v where q: "GetOk d ''q'' = (v, False)"
    using assms(1) by (cases "GetOk d ''q''") auto
  obtain rp i n t m where f: "list_filters e d = Inr (rp, i, n, t, m)"
    using list_filters_typed [OF assms(2)] by blast
  show ?thesis
    by (simp add: dataSourceDatadogServiceLevelObjectivesRead_part_000_def q f listSLO_def
        HasError_def finish_read_def)
qed

theorem structured_filter_read_is_empty_witness:
  "listSLO drift_env NewListSLOsOptionalParameters = ([], []) \<and>
   dataSourceDatadogServiceLevelObjectivesRead_part_000 drift_env flag_off_config =
     Some ([], Inr (flag_off_config, Errorf no_result_message))"
proof -
  have 1: "\<not> snd (GetOk flag_off_config ''q'')"
    by (simp add: GetOk_def flag_off_config_def)
  have 2: "filters_typed flag_off_config"
    by (simp add: filters_typed_def typed_list_def typed_string_def Get_def flag_off_config_def)
  have 3: "errorOnNoResults_of flag_off_config = Inr True"
    by (simp add: errorOnNoResults_of_def GetOk_def flag_off_config_def)
  show ?thesis
    using structured_filter_read_is_empty [OF 1 2, of drift_env NewListSLOsOptionalParameters] 3
    by simp
qed

lemma search_empty_page:
  "search_loop drift_env (WithPageSize 100 rp) 0 [] [] [] =
     Some ([CallSearchSLO (page_request rp 0)], Inr (SearchDone [] []))"
  by (subst search_loop.simps)
     (simp add: drift_env_def empty_page_def deref_def WithPageSize_def page_request_def)

text \<open>
  Claim C7 (a read with zero results fails when \<^verbatim>\<open>error_on_no_results\<close> is true and
  succeeds with an empty list when the caller set it to false). On the code: with the
  flag set to false, on the structured-filter branch and on the free-text branch alike,
  the read returns the zero-result error. \<^verbatim>\<open>GetOk\<close> reports a key set to
  \<^verbatim>\<open>false\<close> as not set, so the flag keeps its initial value.
\<close>

theorem explicit_false_flag_still_errors:
  "dataSourceDatadogServiceLevelObjectivesRead_part_000 e flag_off_config =
     Some ([], Inr (flag_off_config, Errorf no_result_message)) \<and>
   dataSourceDatadogServiceLevelObjectivesRead_part_000 drift_env flag_off_q_config =
     Some ([CallSearchSLO \<lparr>sp_Query = Some ''service:checkout'', sp_PageSize = Some 100,
                            sp_PageNumber = Some 0\<rparr>],
           Inr (flag_off_q_config, Errorf no_result_message))"
proof -
  have a: "errorOnNoResults_of flag_off_config = Inr True"
          "errorOnNoResults_of flag_off_q_config = Inr True"
    by (simp_all add: errorOnNoResults_of_def GetOk_def flag_off_config_def flag_off_q_config_def)
  have b: "GetOk flag_off_config ''q'' = (None, False)"
          "GetOk flag_off_q_config ''q'' = (Some (VString ''service:checkout''), True)"
    by (simp_all add: GetOk_def flag_off_config_def flag_off_q_config_def)
  have c: "list_filters e flag_off_config =
             Inr (\<lparr>lp_Ids = None, lp_Query = Some ''checkout'', lp_TagsQuery = None,
                   lp_MetricsQuery = None\<rparr>, None, Some ''checkout'', None, None)"
    by (simp add: list_filters_def ids_filter_def string_filter_def GetOk_def flag_off_config_def)
  have d: "searchSLO drift_env (WithQuery ''service:checkout'' NewSearchSLOOptionalParameters) =
             Some ([CallSearchSLO \<lparr>sp_Query = Some ''service:checkout'', sp_PageSize = Some 100,
                            sp_PageNumber = Some 0\<rparr>], Inr ([], []))"
    by (simp add: searchSLO_def search_empty_page page_request_def WithQuery_def
        NewSearchSLOOptionalParameters_def)
  show ?thesis
    by (simp add: dataSourceDatadogServiceLevelObjectivesRead_part_000_def a b c d listSLO_def
        HasError_def finish_read_def computeSLOsDataSourceIDbySearchEndpointCall_def deref_def)
qed

text \<open>
  Claim C10: when \<^verbatim>\<open>query\<close> is not set, the pointer handed to
  \<^verbatim>\<open>computeSLOsDataSourceID\<close> is nil and the helper dereferences it: whenever the
  pagination loop completes, the read panics, and a read that returns at all (after a
  failed call) returns the resource data unchanged, with no identity computed.
\<close>

theorem no_query_read_dereferences_nil:
  assumes "\<not> snd (GetOk d ''query'')"
  shows "computeSLOsDataSourceID None = Inl NilDereference \<and>
         (\<forall>calls diags slos.
            search_loop e (WithPageSize 100 NewSearchSLOOptionalParameters) 0 [] [] [] =
              Some (calls, Inr (SearchDone diags slos)) \<longrightarrow>
            dataSourceDatadogServiceLevelObjectivesRead e d = Some (calls, Inl NilDereference)) \<and>
         (\<forall>calls d' ds.
            dataSourceDatadogServiceLevelObjectivesRead e d = Some (calls, Inr (d', ds)) \<longrightarrow>
            d' = d)"
proof -
  obtain v where q: "GetOk d ''query'' = (v, False)"
    using assms by (cases "GetOk d ''query''") auto
  have f: "string_filter d ''query'' = Inr None"
    by (simp add: string_filter_def q)
  have n: "computeSLOsDataSourceID None = Inl NilDereference"
    by (simp add: computeSLOsDataSourceID_def deref_def)
  show ?thesis
    by (auto simp: dataSourceDatadogServiceLevelObjectivesRead_def f n Let_def
        split: option.splits sum.splits search_result.splits prod.splits)
qed

theorem no_query_read_dereferences_nil_witness:
  "dataSourceDatadogServiceLevelObjectivesRead drift_env no_query_config =
     Some ([CallSearchSLO \<lparr>sp_Query = None, sp_PageSize = Some 100, sp_PageNumber = Some 0\<rparr>],
           Inl NilDereference)"
proof -
  have 1: "\<not> snd (GetOk no_query_config ''query'')"
    by (simp add: GetOk_def no_query_config_def)
  show ?thesis
    using no_query_read_dereferences_nil [OF 1, of drift_env]
    by (simp add: search_empty_page page_request_def NewSearchSLOOptionalParameters_def)
qed

section \<open>SLO data sources: properties of the identity\<close>

subsection \<open>The key of a structured-filter read\<close>

lemma string_filter_text:
  "typed_string (Get d k) \<Longrightarrow>
   \<exists>p. string_filter d k = Inr p \<and> written p = filter_text (Get d k)"
  by (auto simp: string_filter_def GetOk_def Get_def typed_string_def written_def filter_text_def
      split: option.splits tf_value.splits bool.splits)

lemma ids_filter_text:
  "typed_list (Get d ''ids'') \<Longrightarrow>
   \<exists>p. ids_filter e d = Inr p \<and> written p = ids_text e (Get d ''ids'')"
  by (auto simp: ids_filter_def GetOk_def Get_def typed_list_def written_def ids_text_def
      split: option.splits tf_value.splits bool.splits)

lemma list_filters_texts:
  assumes "filters_typed d"
  shows "\<exists>rp i n t m. list_filters e d = Inr (rp, i, n, t, m) \<and>
           written i = ids_text e (Get d ''ids'') \<and>
           written n = filter_text (Get d ''name_query'') \<and>
           written t = filter_text (Get d ''tags_query'') \<and>
           written m = filter_text (Get d ''metrics_query'')"
proof -
  from assms obtain i where i: "ids_filter e d = Inr i"
      "written i = ids_text e (Get d ''ids'')"
    using ids_filter_text by (auto simp: filters_typed_def)
  from assms obtain n where n: "string_filter d ''name_query'' = Inr n"
      "written n = filter_text (Get d ''name_query'')"
    using string_filter_text by (auto simp: filters_typed_def)
  from assms obtain t where t: "string_filter d ''tags_query'' = Inr t"
      "written t = filter_text (Get d ''tags_query'')"
    using string_filter_text by (auto simp: filters_typed_def)
  from assms obtain m where m: "string_filter d ''metrics_query'' = Inr m"
      "written m = filter_text (Get d ''metrics_query'')"
    using string_filter_text by (auto simp: filters_typed_def)
  show ?thesis by (simp add: list_filters_def i n t m)
qed

lemma resourceID_of_filters:
  assumes "\<not> snd (GetOk d ''q'')" and "filters_typed d"
  shows "resourceID_part_000 e d =
     Inr (sha256_hex (joined_key (ids_text e (Get d ''ids'')) (filter_text (Get d ''name_query''))
            (filter_text (Get d ''tags_query'')) (filter_text (Get d ''metrics_query''))))"
proof -
  obtain v where q: "GetOk d ''q'' = (v, False)"
    using assms(1) by (cases "GetOk d ''q''") auto
  obtain rp i n t m where f: "list_filters e d = Inr (rp, i, n, t, m)"
      "written i = ids_text e (Get d ''ids'')"
      "written n = filter_text (Get d ''name_query'')"
      "written t = filter_text (Get d ''tags_query'')"
      "written m = filter_text (Get d ''metrics_query'')"
    using list_filters_texts [OF assms(2)] by blast
  show ?thesis
    by (simp add: resourceID_part_000_def q f computeSLOsDataSourceIDByListEndpointCall_def
        list_key_def joined_key_def)
qed

lemma resourceID_of_q:
  assumes "Get d ''q'' = Some (VString q)" and "q \<noteq> []"
  shows "resourceID_part_000 e d = Inr (sha256_hex q)"
  using assms
  by (simp add: resourceID_part_000_def GetOk_def Get_def
      computeSLOsDataSourceIDbySearchEndpointCall_def deref_def)

text \<open>A read that stores an identity stores the value of \<^verbatim>\<open>resourceID\<close>.\<close>

lemma read_stores_resourceID:
  assumes "dataSourceDatadogServiceLevelObjectivesRead_part_000 e d = Some (calls, Inr (d', ds))"
  shows "d' = d \<or> resourceID_part_000 e d = Inr (rd_id d')"
  using assms
  by (auto simp: dataSourceDatadogServiceLevelObjectivesRead_part_000_def resourceID_part_000_def
      finish_read_def SetId_def Set_field_def listSLO_def
      split: sum.splits prod.splits bool.splits option.splits if_splits)

subsection \<open>When keys differ\<close>

lemma split_at_bar:
  "CHR ''|'' \<notin> set a \<Longrightarrow> CHR ''|'' \<notin> set a' \<Longrightarrow>
   a @ CHR ''|'' # r = a' @ CHR ''|'' # r' \<Longrightarrow> a = a' \<and> r = r'"
proof (induction a arbitrary: a')
  case Nil
  then show ?case by (cases a') auto
next
  case (Cons x xs)
  then show ?case by (cases a') auto
qed

lemma joined_key_bar_free:
  assumes "bar_free i" "bar_free n" "bar_free t" "bar_free i'" "bar_free n'" "bar_free t'"
    and "joined_key i n t m = joined_key i' n' t' m'"
  shows "i = i' \<and> n = n' \<and> t = t' \<and> m = m'"
proof -
  from assms(7) have
    k: "i @ CHR ''|'' # (n @ CHR ''|'' # (t @ CHR ''|'' # m)) =
        i' @ CHR ''|'' # (n' @ CHR ''|'' # (t' @ CHR ''|'' # m'))"
    by (simp add: joined_key_def)
  from split_at_bar [OF _ _ k] assms(1,4) have
    1: "i = i'" and k1: "n @ CHR ''|'' # (t @ CHR ''|'' # m) = n' @ CHR ''|'' # (t' @ CHR ''|'' # m')"
    by (simp_all add: bar_free_def)
  from split_at_bar [OF _ _ k1] assms(2,5) have
    2: "n = n'" and k2: "t @ CHR ''|'' # m = t' @ CHR ''|'' # m'"
    by (simp_all add: bar_free_def)
  from split_at_bar [OF _ _ k2] assms(3,6) have 3: "t = t'" and 4: "m = m'"
    by (simp_all add: bar_free_def)
  show ?thesis using 1 2 3 4 by simp
qed

lemma joined_key_one_field:
  "joined_key i n t m = joined_key i' n t m \<Longrightarrow> i = i'"
  "joined_key i n t m = joined_key i n' t m \<Longrightarrow> n = n'"
  "joined_key i n t m = joined_key i n t' m \<Longrightarrow> t = t'"
  "joined_key i n t m = joined_key i n t m' \<Longrightarrow> m = m'"
  by (simp_all add: joined_key_def)

subsection \<open>The claim\<close>

text \<open>
  Claim C6 as stated (any two reads that differ in a filter value have different
  identities) fails. The id filter \<^verbatim>\<open>a|b\<close> alone, and the id filter \<^verbatim>\<open>a\<close> with
  name filter \<^verbatim>\<open>b\<close> and metrics filter \<^verbatim>\<open>|\<close>, get the same identity, at the
  helper and in the read; so do the id list \<^verbatim>\<open>["a", "b"]\<close> and the id list
  \<^verbatim>\<open>["a,b"]\<close>.
\<close>

theorem list_identity_collides_on_separator:
  "computeSLOsDataSourceIDByListEndpointCall (Some ''a|b'') None None None =
   computeSLOsDataSourceIDByListEndpointCall (Some ''a'') (Some ''b'') None (Some ''|'') \<and>
   resourceID_part_000 drift_env bar_ids_config = resourceID_part_000 drift_env split_config \<and>
   Get bar_ids_config ''ids'' \<noteq> Get split_config ''ids'' \<and>
   resourceID_part_000 drift_env two_ids_config = resourceID_part_000 drift_env comma_id_config \<and>
   Get two_ids_config ''ids'' \<noteq> Get comma_id_config ''ids''"
  by (simp add: computeSLOsDataSourceIDByListEndpointCall_def list_key_def written_def
      resourceID_part_000_def list_filters_def ids_filter_def string_filter_def GetOk_def Get_def
      drift_env_def bar_ids_config_def split_config_def two_ids_config_def comma_id_config_def)

text \<open>
  Claim C6, amended. The identity that a read computes is the SHA-256 digest, in
  hexadecimal, of a key. When \<^verbatim>\<open>q\<close> is set the key is \<^verbatim>\<open>q\<close> alone, whatever the
  other filters are. Otherwise (the filters having the types of the schema) the key is
  the text of the id list, of the name filter, of the tag filter and of the metrics
  filter, in this order, with a bar after each of the first three; the text of an
  unset or empty filter is empty, the text of the id list is its elements joined by
  commas. A read that stores an identity stores this digest. So two reads with the same
  \<^verbatim>\<open>q\<close>, or with no \<^verbatim>\<open>q\<close> and the same four texts, have the same identity. Two
  keys whose texts differ in exactly one field differ; and two keys whose texts differ
  anywhere differ when the id, name and tag texts of both are free of the bar.
\<close>

theorem identity_of_effective_filters:
  "(Get d ''q'' = Some (VString q) \<and> q \<noteq> [] \<longrightarrow>
      resourceID_part_000 e d = Inr (sha256_hex q)) \<and>
   (\<not> snd (GetOk d ''q'') \<and> filters_typed d \<longrightarrow>
      resourceID_part_000 e d =
        Inr (sha256_hex
          (ids_text e (Get d ''ids'') @ ''|'' @ filter_text (Get d ''name_query'') @ ''|'' @
           filter_text (Get d ''tags_query'') @ ''|'' @ filter_text (Get d ''metrics_query'')))) \<and>
   (dataSourceDatadogServiceLevelObjectivesRead_part_000 e d = Some (calls, Inr (d', ds)) \<longrightarrow>
      d' = d \<or> resourceID_part_000 e d = Inr (rd_id d')) \<and>
   (Get d ''q'' = Some (VString q) \<and> q \<noteq> [] \<and> Get d2 ''q'' = Some (VString q) \<longrightarrow>
      resourceID_part_000 e d = resourceID_part_000 e d2) \<and>
   (\<not> snd (GetOk d ''q'') \<and> filters_typed d \<and> \<not> snd (GetOk d2 ''q'') \<and> filters_typed d2 \<and>
    ids_text e (Get d ''ids'') = ids_text e (Get d2 ''ids'') \<and>
    filter_text (Get d ''name_query'') = filter_text (Get d2 ''name_query'') \<and>
    filter_text (Get d ''tags_query'') = filter_text (Get d2 ''tags_query'') \<and>
    filter_text (Get d ''metrics_query'') = filter_text (Get d2 ''metrics_query'') \<longrightarrow>
      resourceID_part_000 e d = resourceID_part_000 e d2) \<and>
   (i \<noteq> i' \<longrightarrow> i @ ''|'' @ n @ ''|'' @ t @ ''|'' @ m \<noteq> i' @ ''|'' @ n @ ''|'' @ t @ ''|'' @ m) \<and>
   (n \<noteq> n' \<longrightarrow> i @ ''|'' @ n @ ''|'' @ t @ ''|'' @ m \<noteq> i @ ''|'' @ n' @ ''|'' @ t @ ''|'' @ m) \<and>
   (t \<noteq> t' \<longrightarrow> i @ ''|'' @ n @ ''|'' @ t @ ''|'' @ m \<noteq> i @ ''|'' @ n @ ''|'' @ t' @ ''|'' @ m) \<and>
   (m \<noteq> m' \<longrightarrow> i @ ''|'' @ n @ ''|'' @ t @ ''|'' @ m \<noteq> i @ ''|'' @ n @ ''|'' @ t @ ''|'' @ m') \<and>
   (bar_free i \<and> bar_free n \<and> bar_free t \<and> bar_free i' \<and> bar_free n' \<and> bar_free t' \<and>
    (i \<noteq> i' \<or> n \<noteq> n' \<or> t \<noteq> t' \<or> m \<noteq> m') \<longrightarrow>
      i @ ''|'' @ n @ ''|'' @ t @ ''|'' @ m \<noteq> i' @ ''|'' @ n' @ ''|'' @ t' @ ''|'' @ m')"
proof -
  have 1: "Get d ''q'' = Some (VString q) \<and> q \<noteq> [] \<longrightarrow>
      resourceID_part_000 e d = Inr (sha256_hex q)"
    using resourceID_of_q by blast
  have 2: "\<not> snd (GetOk d ''q'') \<and> filters_typed d \<longrightarrow>
      resourceID_part_000 e d =
        Inr (sha256_hex
          (ids_text e (Get d ''ids'') @ ''|'' @ filter_text (Get d ''name_query'') @ ''|'' @
           filter_text (Get d ''tags_query'') @ ''|'' @ filter_text (Get d ''metrics_query'')))"
    using resourceID_of_filters [of d e] by (simp add: joined_key_def)
  have 3: "dataSourceDatadogServiceLevelObjectivesRead_part_000 e d = Some (calls, Inr (d', ds)) \<longrightarrow>
      d' = d \<or> resourceID_part_000 e d = Inr (rd_id d')"
    using read_stores_resourceID by blast
  have s1: "Get d ''q'' = Some (VString q) \<and> q \<noteq> [] \<and> Get d2 ''q'' = Some (VString q) \<longrightarrow>
      resourceID_part_000 e d = resourceID_part_000 e d2"
    using resourceID_of_q [of d q e] resourceID_of_q [of d2 q e] by simp
  have s2: "\<not> snd (GetOk d ''q'') \<and> filters_typed d \<and> \<not> snd (GetOk d2 ''q'') \<and> filters_typed d2 \<and>
    ids_text e (Get d ''ids'') = ids_text e (Get d2 ''ids'') \<and>
    filter_text (Get d ''name_query'') = filter_text (Get d2 ''name_query'') \<and>
    filter_text (Get d ''tags_query'') = filter_text (Get d2 ''tags_query'') \<and>
    filter_text (Get d ''metrics_query'') = filter_text (Get d2 ''metrics_query'') \<longrightarrow>
      resourceID_part_000 e d = resourceID_part_000 e d2"
    using resourceID_of_filters [of d e] resourceID_of_filters [of d2 e] by simp
  have 4: "i \<noteq> i' \<longrightarrow> i @ ''|'' @ n @ ''|'' @ t @ ''|'' @ m \<noteq> i' @ ''|'' @ n @ ''|'' @ t @ ''|'' @ m"
    by simp
  have 5: "n \<noteq> n' \<longrightarrow> i @ ''|'' @ n @ ''|'' @ t @ ''|'' @ m \<noteq> i @ ''|'' @ n' @ ''|'' @ t @ ''|'' @ m"
    by simp
  have 6: "t \<noteq> t' \<longrightarrow> i @ ''|'' @ n @ ''|'' @ t @ ''|'' @ m \<noteq> i @ ''|'' @ n @ ''|'' @ t' @ ''|'' @ m"
    by simp
  have 7: "m \<noteq> m' \<longrightarrow> i @ ''|'' @ n @ ''|'' @ t @ ''|'' @ m \<noteq> i @ ''|'' @ n @ ''|'' @ t @ ''|'' @ m'"
    by simp
  have 8: "bar_free i \<and> bar_free n \<and> bar_free t \<and> bar_free i' \<and> bar_free n' \<and> bar_free t' \<and>
    (i \<noteq> i' \<or> n \<noteq> n' \<or> t \<noteq> t' \<or> m \<noteq> m') \<longrightarrow>
      i @ ''|'' @ n @ ''|'' @ t @ ''|'' @ m \<noteq> i' @ ''|'' @ n' @ ''|'' @ t' @ ''|'' @ m'"
    using joined_key_bar_free [of i n t i' n' t' m m'] by (auto simp: joined_key_def)
  show ?thesis using 1 2 3 s1 s2 4 5 6 7 8 by blast
qed

theorem identity_of_effective_filters_witness:
  "resourceID_part_000 drift_env q_and_filters_config = Inr (sha256_hex ''service:checkout'') \<and>
   resourceID_part_000 drift_env q_and_filters_config =
     resourceID_part_000 drift_env flag_off_q_config \<and>
   resourceID_part_000 drift_env id_and_name_config = Inr (sha256_hex ''a|b||'') \<and>
   ''a|b||'' \<noteq> ''a|c||'' \<and> ''a|b||'' \<noteq> ''a||b|''"
proof -
  have q: "Get q_and_filters_config ''q'' = Some (VString ''service:checkout'')"
          "Get flag_off_q_config ''q'' = Some (VString ''service:checkout'')"
          "''service:checkout'' \<noteq> []"
    by (simp_all add: Get_def q_and_filters_config_def flag_off_q_config_def)
  have f: "\<not> snd (GetOk id_and_name_config ''q'')" "filters_typed id_and_name_config"
    by (simp_all add: GetOk_def Get_def filters_typed_def typed_list_def typed_string_def
        id_and_name_config_def)
  have t: "ids_text drift_env (Get id_and_name_config ''ids'') = ''a''"
          "filter_text (Get id_and_name_config ''name_query'') = ''b''"
          "filter_text (Get id_and_name_config ''tags_query'') = []"
          "filter_text (Get id_and_name_config ''metrics_query'') = []"
    by (simp_all add: ids_text_def filter_text_def Get_def id_and_name_config_def drift_env_def)
  have b: "bar_free ''a''" "bar_free ''b''" "bar_free ''c''" "bar_free []"
    by (simp_all add: bar_free_def)
  note A = identity_of_effective_filters
         [where d = q_and_filters_config and q = "''service:checkout''" and e = drift_env
            and ?d2.0 = flag_off_q_config
            and i = "''a''" and i' = "''a''" and n = "''b''" and n' = "''c''"
            and t = "[]" and t' = "[]" and m = "[]" and m' = "[]"]
  note B = identity_of_effective_filters
         [where d = id_and_name_config and e = drift_env
            and i = "''a''" and i' = "''a''" and n = "''b''" and n' = "[]"
            and t = "[]" and t' = "''b''" and m = "[]" and m' = "[]"]
  have 1: "resourceID_part_000 drift_env q_and_filters_config = Inr (sha256_hex ''service:checkout'')"
    using A q by blast
  have 2: "resourceID_part_000 drift_env q_and_filters_config =
     resourceID_part_000 drift_env flag_off_q_config"
    using A q by blast
  have 3: "resourceID_part_000 drift_env id_and_name_config = Inr (sha256_hex ''a|b||'')"
    using B f by (simp add: t)
  have 4: "''a|b||'' \<noteq> ''a|c||''"
    using A by simp
  have 5: "''a|b||'' \<noteq> ''a||b|''"
    using B b by simp
  show ?thesis using 1 2 3 4 5 by blast
qed

subsection \<open>The digest on known inputs\<close>

text \<open>The test vector of FIPS 180-4 for \<^verbatim>\<open>abc\<close>, and the digests of the two keys of
  the specification's example, evaluated by the simplifier.\<close>

lemma sha256_hex_abc:
  "sha256_hex ''abc'' = ''ba7816bf8f01cfea414140de5dae2223b00361a396177a9cb410ff61f20015ad''"
  by code_simp

lemma sha256_hex_key_1:
  "sha256_hex ''a|b|||'' = ''cf348af737e266963ddab1657109297410086e17cc468f8a3b094b3bda3ebbd7''"
  by code_simp

lemma sha256_hex_key_2:
  "sha256_hex ''a|b||'' = ''975fa13a1272c134746e3115e4cd62be01faad65dbd9b1420df638c58c0d3e3c''"
  by code_simp

text \<open>The example of the specification: the id filter \<^verbatim>\<open>a|b\<close> with no name filter,
  against the id filter \<^verbatim>\<open>a\<close> with the name filter \<^verbatim>\<open>b\<close>, has the keys
  \<^verbatim>\<open>a|b|||\<close> and \<^verbatim>\<open>a|b||\<close> and different identities.\<close>

lemma example_identities_differ:
  "resourceID_part_000 drift_env bar_ids_config = Inr (sha256_hex ''a|b|||'') \<and>
   resourceID_part_000 drift_env id_and_name_config = Inr (sha256_hex ''a|b||'') \<and>
   resourceID_part_000 drift_env bar_ids_config \<noteq>
   resourceID_part_000 drift_env id_and_name_config"
proof -
  have 1: "resourceID_part_000 drift_env bar_ids_config = Inr (sha256_hex ''a|b|||'')"
    by (simp add: resourceID_part_000_def list_filters_def ids_filter_def string_filter_def
        GetOk_def drift_env_def bar_ids_config_def
        computeSLOsDataSourceIDByListEndpointCall_def list_key_def written_def)
  have 2: "resourceID_part_000 drift_env id_and_name_config = Inr (sha256_hex ''a|b||'')"
    by (simp add: resourceID_part_000_def list_filters_def ids_filter_def string_filter_def
        GetOk_def drift_env_def id_and_name_config_def
        computeSLOsDataSourceIDByListEndpointCall_def list_key_def written_def)
  show ?thesis
    unfolding 1 2 by (simp add: sha256_hex_key_1 sha256_hex_key_2)
qed

end
